theory Spec2Isabelle
  imports Complex_Main
begin

section \<open>Numbers, points and vectors\<close>

text \<open>
  The program is TypeScript. Its \<^verbatim>\<open>number\<close> values are double-precision floats. They are
  modelled as reals and the arithmetic as exact, with one exception: the addition
  \<^verbatim>\<open>360 + ang\<close> at the end of \<^verbatim>\<open>computeAngleVector\<close> is rounded as the program rounds it,
  because there the rounding decides whether the end point 360 is reached. NaN, the
  infinities and the sign of zero are outside this model.
  \<^verbatim>\<open>Math.round\<close> rounds to the nearest integer with ties towards plus infinity, which
  is \<^const>\<open>round\<close> (\<open>round x = \<lfloor>x + 1/2\<rfloor>\<close>). \<^verbatim>\<open>Math.atan2\<close> is the library
  function of the language, given here by its usual case table over \<^const>\<open>arctan\<close>.
\<close>

record Point =
  pt_x :: real
  pt_y :: real

type_synonym Vec2 = "real \<times> real"

definition atan2 :: "real \<Rightarrow> real \<Rightarrow> real" where
  "atan2 b a =
     (if 0 < a then arctan (b / a)
      else if a < 0 then (if 0 \<le> b then arctan (b / a) + pi else arctan (b / a) - pi)
      else if 0 < b then pi / 2
      else if b < 0 then - (pi / 2)
      else 0)"

text \<open>
  Rounding to double precision (IEEE 754 binary64, round to nearest, ties to even):
  \<open>round_even\<close> rounds a real to the nearest integer with ties to the even one, and
  \<open>fl64 x\<close> is the multiple of the unit in the last place of \<open>x\<close> that is nearest to
  \<open>x\<close>. The unit is \<open>2\<close> to the power \<open>e - 52\<close>, where \<open>e\<close> is the binary exponent of
  \<open>x\<close>, not below \<open>-1022\<close> (the subnormal range). Overflow to an infinity is not
  modelled.
\<close>

definition round_even :: "real \<Rightarrow> int" where
  "round_even r =
     (let f = \<lfloor>r\<rfloor>
      in if r - of_int f < 1 / 2 then f
         else if r - of_int f > 1 / 2 then f + 1
         else if even f then f else f + 1)"

definition fl64 :: "real \<Rightarrow> real" where
  "fl64 x =
     (if x = 0 then 0
      else
        let e = max \<lfloor>log 2 \<bar>x\<bar>\<rfloor> (- 1022);
            u = 2 powr real_of_int (e - 52)
        in u * real_of_int (round_even (x / u)))"

section \<open>utils/mathUtils.ts\<close>

subsection \<open>The joint dictionary\<close>

text \<open>
  \<^verbatim>\<open>JOINT_DICT\<close> is an object literal, so \<^verbatim>\<open>JOINT_DICT[name]\<close> finds its fifteen own
  entries and also the members every object inherits from \<^verbatim>\<open>Object.prototype\<close>. An
  inherited member is truthy and has no \<^verbatim>\<open>kp1\<close> or \<^verbatim>\<open>kp2\<close>, so both keypoint names
  read as \<^verbatim>\<open>undefined\<close> and the skeleton is then indexed with the key \<^verbatim>\<open>"undefined"\<close>.
\<close>

datatype joint_entry = Own string string | Inherited

definition objectPrototypeKeys :: "string list" where
  "objectPrototypeKeys =
     [''constructor'', ''toString'', ''toLocaleString'', ''valueOf'', ''hasOwnProperty'',
      ''isPrototypeOf'', ''propertyIsEnumerable'', ''__proto__'', ''__defineGetter__'',
      ''__defineSetter__'', ''__lookupGetter__'', ''__lookupSetter__'']"

definition JOINT_DICT :: "string \<Rightarrow> joint_entry option" where
  "JOINT_DICT name =
     (if name = ''leftBiceps'' then Some (Own ''leftShoulder'' ''leftElbow'')
      else if name = ''rightBiceps'' then Some (Own ''rightShoulder'' ''rightElbow'')
      else if name = ''leftForarm'' then Some (Own ''leftElbow'' ''leftWrist'')
      else if name = ''rightForarm'' then Some (Own ''rightElbow'' ''rightWrist'')
      else if name = ''leftThigh'' then Some (Own ''leftHip'' ''leftKnee'')
      else if name = ''rightThigh'' then Some (Own ''rightHip'' ''rightKnee'')
      else if name = ''leftTibia'' then Some (Own ''leftKnee'' ''leftAnkle'')
      else if name = ''rightTibia'' then Some (Own ''rightKnee'' ''rightAnkle'')
      else if name = ''leftChest'' then Some (Own ''leftShoulder'' ''leftHip'')
      else if name = ''rightChest'' then Some (Own ''rightShoulder'' ''rightHip'')
      else if name = ''leftLeg'' then Some (Own ''leftHip'' ''leftAnkle'')
      else if name = ''rightLeg'' then Some (Own ''rightHip'' ''rightAnkle'')
      else if name = ''leftNeck'' then Some (Own ''manubrium'' ''leftEar'')
      else if name = ''rightNeck'' then Some (Own ''manubrium'' ''rightEar'')
      else if name = ''neck'' then Some (Own ''manubrium'' ''nose'')
      else if name \<in> set objectPrototypeKeys then Some Inherited
      else None)"

subsection \<open>Composed points\<close>

type_synonym SkeletonData = "string \<rightharpoonup> Point"

definition midpoint_of :: "Point \<Rightarrow> Point \<Rightarrow> Point" where
  "midpoint_of a b = \<lparr>pt_x = (pt_x a + pt_x b) / 2, pt_y = (pt_y a + pt_y b) / 2\<rparr>"

definition buildEnrichedSkeleton :: "SkeletonData \<Rightarrow> (string \<rightharpoonup> Point)" where
  "buildEnrichedSkeleton skeleton =
     (let s0 = skeleton;
          s1 = (case (skeleton ''leftShoulder'', skeleton ''rightShoulder'') of
                  (Some l, Some r) \<Rightarrow> s0(''manubrium'' \<mapsto> midpoint_of l r)
                | _ \<Rightarrow> s0);
          s2 = (case (skeleton ''leftHip'', skeleton ''rightHip'') of
                  (Some l, Some r) \<Rightarrow> s1(''pubis'' \<mapsto> midpoint_of l r)
                | _ \<Rightarrow> s1)
      in s2)"

subsection \<open>Vectors and angles\<close>

definition startsWithDash :: "string \<Rightarrow> bool" where
  "startsWithDash s = (case s of [] \<Rightarrow> False | c # _ \<Rightarrow> c = CHR ''-'')"

definition resolveVector :: "string \<Rightarrow> (string \<rightharpoonup> Point) \<Rightarrow> Vec2 option" where
  "resolveVector jointName kps =
     (if jointName = ''vertical'' then Some (0, 1)
      else if jointName = ''-vertical'' then Some (0, - 1)
      else if jointName = ''horizontal'' then Some (1, 0)
      else if jointName = ''-horizontal'' then Some (- 1, 0)
      else
        let invert = startsWithDash jointName;
            name = (if invert then drop 1 jointName else jointName)
        in case JOINT_DICT name of
             None \<Rightarrow> None
           | Some def \<Rightarrow>
               let k1 = (case def of Own a _ \<Rightarrow> a | Inherited \<Rightarrow> ''undefined'');
                   k2 = (case def of Own _ b \<Rightarrow> b | Inherited \<Rightarrow> ''undefined'')
               in case (kps k1, kps k2) of
                    (Some p1, Some p2) \<Rightarrow>
                      Some (if invert then (pt_x p1 - pt_x p2, pt_y p1 - pt_y p2)
                            else (pt_x p2 - pt_x p1, pt_y p2 - pt_y p1))
                  | _ \<Rightarrow> None)"

definition computeAngleVector :: "Vec2 \<Rightarrow> Vec2 \<Rightarrow> real" where
  "computeAngleVector vec1 vec2 =
     (let ang = atan2 (fst vec1 * snd vec2 - snd vec1 * fst vec2)
                      (fst vec1 * fst vec2 + snd vec1 * snd vec2) * (180 / pi)
      in if ang < 0 then fl64 (360 + ang) else ang)"

record AngleDef =
  ad_center :: string
  ad_joint1 :: string
  ad_joint2 :: string
  ad_min :: real
  ad_max :: real

definition computeAngle :: "(string \<rightharpoonup> Point) \<Rightarrow> AngleDef \<Rightarrow> real option" where
  "computeAngle kps def =
     (let v1 = resolveVector (ad_joint1 def) kps;
          v2 = resolveVector (ad_joint2 def) kps
      in case (v1, v2) of
           (Some a, Some b) \<Rightarrow> Some (computeAngleVector b a)
         | _ \<Rightarrow> None)"

subsection \<open>Scoring\<close>

definition getLinearScore :: "real option \<Rightarrow> real \<Rightarrow> real \<Rightarrow> int" where
  "getLinearScore value mn mx =
     (case value of
        None \<Rightarrow> 0
      | Some v \<Rightarrow>
          if mn > mx then
            (if v \<le> mx then 100
             else if v \<ge> mn then 0
             else round (((v - mn) / (mx - mn)) * 100))
          else
            (if v \<le> 0 then 0
             else if v \<ge> mx then 100
             else round ((v * 100) / mx)))"

definition getAverageScore :: "real list \<Rightarrow> int" where
  "getAverageScore scores =
     (let valid = filter (\<lambda>s. s \<ge> 0) scores
      in if length valid = 0 then 0
         else round (foldl (\<lambda>a b. a + b) 0 valid / real (length valid)))"

definition fetchRank :: "real \<Rightarrow> string" where
  "fetchRank score =
     (if score \<ge> 90 then ''A'' else if score \<ge> 80 then ''B''
      else if score \<ge> 70 then ''C'' else if score \<ge> 60 then ''D''
      else if score \<ge> 50 then ''E'' else if score \<ge> 40 then ''F''
      else if score \<ge> 30 then ''G'' else if score \<ge> 20 then ''H''
      else if score \<ge> 10 then ''I'' else ''J'')"

section \<open>types.ts: the editor graph\<close>

text \<open>
  Field names carry a prefix for the interface they belong to (\<open>ep_\<close> for
  \<^verbatim>\<open>EditorPoint\<close>, \<open>ec_\<close> for \<^verbatim>\<open>EditorConnection\<close>, \<open>ea_\<close> for \<^verbatim>\<open>EditorAngle\<close>,
  \<open>ed_\<close> for \<^verbatim>\<open>EditorData\<close>, \<open>lo_\<close> for \<^verbatim>\<open>EditorLayout\<close>), so that \<open>x\<close>, \<open>id\<close>,
  \<open>from\<close> and \<open>to\<close> stay free for variables.
\<close>

datatype EditorTool = MOVE | ADD_POINT | CONNECT | ANGLE | DELETE

record EditorPoint =
  ep_id :: string
  ep_x :: real
  ep_y :: real

record EditorConnection =
  ec_id :: string
  ec_from :: string
  ec_to :: string

record EditorAngle =
  ea_id :: string
  ea_p1 :: string
  ea_center :: string
  ea_p2 :: string

record EditorData =
  ed_points :: "EditorPoint list"
  ed_connections :: "EditorConnection list"
  ed_angles :: "EditorAngle list"

record EditorLayout =
  lo_renderW :: real
  lo_renderH :: real
  lo_offsetX :: real
  lo_offsetY :: real

section \<open>utils/geometryUtils.ts\<close>

definition getDistance :: "Point \<Rightarrow> Point \<Rightarrow> real" where
  "getDistance p1 p2 = sqrt ((pt_x p2 - pt_x p1)\<^sup>2 + (pt_y p2 - pt_y p1)\<^sup>2)"

definition distSq :: "real \<Rightarrow> real \<Rightarrow> real \<Rightarrow> real \<Rightarrow> real" where
  "distSq x1 y1 x2 y2 = (x1 - x2) * (x1 - x2) + (y1 - y2) * (y1 - y2)"

definition getDistanceToSegment :: "Point \<Rightarrow> Point \<Rightarrow> Point \<Rightarrow> real" where
  "getDistanceToSegment p v w =
     (let l2 = distSq (pt_x v) (pt_y v) (pt_x w) (pt_y w)
      in if l2 = 0 then getDistance p v
         else
           let t0 = ((pt_x p - pt_x v) * (pt_x w - pt_x v)
                     + (pt_y p - pt_y v) * (pt_y w - pt_y v)) / l2;
               t = max 0 (min 1 t0);
               projection = \<lparr>pt_x = pt_x v + t * (pt_x w - pt_x v),
                             pt_y = pt_y v + t * (pt_y w - pt_y v)\<rparr>
           in getDistance p projection)"

definition calculateAngle :: "Point \<Rightarrow> Point \<Rightarrow> Point \<Rightarrow> int" where
  "calculateAngle p1 center p2 =
     (let p1x = pt_x p1 - pt_x center;
          p1y = pt_y p1 - pt_y center;
          p2x = pt_x p2 - pt_x center;
          p2y = pt_y p2 - pt_y center;
          angleRad = atan2 p2y p2x - atan2 p1y p1x;
          angleDeg0 = \<bar>(angleRad * 180) / pi\<bar>;
          angleDeg = (if angleDeg0 > 180 then 360 - angleDeg0 else angleDeg0)
      in round angleDeg)"

definition project :: "EditorPoint \<Rightarrow> EditorLayout \<Rightarrow> Point" where
  "project normP layout =
     \<lparr>pt_x = lo_offsetX layout + ep_x normP * lo_renderW layout,
      pt_y = lo_offsetY layout + ep_y normP * lo_renderH layout\<rparr>"

definition calculateVerticalDeviation :: "Point \<Rightarrow> Point \<Rightarrow> int" where
  "calculateVerticalDeviation top_pt bottom_pt =
     (let dx = pt_x bottom_pt - pt_x top_pt;
          dy = pt_y bottom_pt - pt_y top_pt;
          rad = atan2 dx dy;
          deg = \<bar>(rad * 180) / pi\<bar>
      in round deg)"

definition calculateHorizontalDeviation :: "Point \<Rightarrow> Point \<Rightarrow> int" where
  "calculateHorizontalDeviation left right =
     (let dy = pt_y right - pt_y left;
          dx = pt_x right - pt_x left;
          rad = atan2 dy dx;
          deg = \<bar>(rad * 180) / pi\<bar>
      in round deg)"

text \<open>
  The three hit tests are \<^verbatim>\<open>for ... of\<close> loops that return from inside the loop at the
  first element that passes; \<^verbatim>\<open>points.find\<close> is \<^const>\<open>find\<close>.
\<close>

fun hitTestPoint :: "real \<Rightarrow> real \<Rightarrow> EditorPoint list \<Rightarrow> EditorLayout \<Rightarrow> real \<Rightarrow> string option" where
  "hitTestPoint x y [] layout tolerance = None"
| "hitTestPoint x y (p # ps) layout tolerance =
     (let screenP = project p layout
      in if getDistance \<lparr>pt_x = x, pt_y = y\<rparr> screenP < tolerance then Some (ep_id p)
         else hitTestPoint x y ps layout tolerance)"

fun hitTestConnection ::
  "real \<Rightarrow> real \<Rightarrow> EditorConnection list \<Rightarrow> EditorPoint list \<Rightarrow> EditorLayout \<Rightarrow> real \<Rightarrow> string option" where
  "hitTestConnection x y [] points layout tolerance = None"
| "hitTestConnection x y (conn # conns) points layout tolerance =
     (case (find (\<lambda>p. ep_id p = ec_from conn) points, find (\<lambda>p. ep_id p = ec_to conn) points) of
        (Some p1, Some p2) \<Rightarrow>
          (let v = project p1 layout;
               w = project p2 layout;
               p = \<lparr>pt_x = x, pt_y = y\<rparr>;
               dist = getDistanceToSegment p v w
           in if dist < tolerance then Some (ec_id conn)
              else hitTestConnection x y conns points layout tolerance)
      | _ \<Rightarrow> hitTestConnection x y conns points layout tolerance)"

text \<open>
  The body of the loop of \<^verbatim>\<open>hitTestAngle\<close> in two named parts: the difference of the
  two bearings after the normalisation step, and the position of the text label.
\<close>

definition normalizeDiff :: "real \<Rightarrow> real" where
  "normalizeDiff diff =
     (if diff > pi then diff - 2 * pi
      else if diff \<le> - pi then diff + 2 * pi
      else diff)"

definition textRadius :: real where
  "textRadius = 45"

definition labelPoint :: "Point \<Rightarrow> Point \<Rightarrow> Point \<Rightarrow> Point" where
  "labelPoint sc s1 s2 =
     (let cx = pt_x sc; cy = pt_y sc;
          ax = pt_x s1; ay = pt_y s1;
          bx = pt_x s2; by = pt_y s2;
          startAngle = atan2 (ay - cy) (ax - cx);
          endAngle = atan2 (by - cy) (bx - cx);
          diff = normalizeDiff (endAngle - startAngle);
          midAngle = startAngle + diff / 2;
          tx = cx + cos midAngle * textRadius;
          ty = cy + sin midAngle * textRadius
      in \<lparr>pt_x = tx, pt_y = ty\<rparr>)"

fun hitTestAngle ::
  "real \<Rightarrow> real \<Rightarrow> EditorAngle list \<Rightarrow> EditorPoint list \<Rightarrow> EditorLayout \<Rightarrow> real \<Rightarrow> string option" where
  "hitTestAngle x y [] points layout tolerance = None"
| "hitTestAngle x y (angle # rest) points layout tolerance =
     (case (find (\<lambda>p. ep_id p = ea_p1 angle) points,
            find (\<lambda>p. ep_id p = ea_center angle) points,
            find (\<lambda>p. ep_id p = ea_p2 angle) points) of
        (Some p1, Some pc, Some p2) \<Rightarrow>
          (let sc = project pc layout;
               s1 = project p1 layout;
               s2 = project p2 layout
           in if getDistance \<lparr>pt_x = x, pt_y = y\<rparr> (labelPoint sc s1 s2) < tolerance
              then Some (ea_id angle)
              else hitTestAngle x y rest points layout tolerance)
      | _ \<Rightarrow> hitTestAngle x y rest points layout tolerance)"

text \<open>
  The test that the loop of \<^verbatim>\<open>hitTestAngle\<close> makes on one angle, as a predicate: the three
  points are found and the cursor is closer than \<open>tolerance\<close> to the label point. It is
  used to say which angle the loop returns.
\<close>

definition labelHit ::
  "real \<Rightarrow> real \<Rightarrow> EditorPoint list \<Rightarrow> EditorLayout \<Rightarrow> real \<Rightarrow> EditorAngle \<Rightarrow> bool" where
  "labelHit x y points layout tolerance angle =
     (case (find (\<lambda>p. ep_id p = ea_p1 angle) points,
            find (\<lambda>p. ep_id p = ea_center angle) points,
            find (\<lambda>p. ep_id p = ea_p2 angle) points) of
        (Some p1, Some pc, Some p2) \<Rightarrow>
          getDistance \<lparr>pt_x = x, pt_y = y\<rparr>
            (labelPoint (project pc layout) (project p1 layout) (project p2 layout)) < tolerance
      | _ \<Rightarrow> False)"

section \<open>components/organisms/EditorCanvas.tsx: the pointer-down handler\<close>

text \<open>
  The component state that \<^verbatim>\<open>handleStart\<close> reads and writes. Each \<^verbatim>\<open>setEditorData\<close>
  call is applied to the state the handler read, one event at a time.
\<close>

record EditorState =
  st_editorData :: EditorData
  st_draggingPointId :: "string option"
  st_connectingStartId :: "string option"
  st_selectedElementIds :: "string list"

text \<open>
  The handler tests ids with \<^verbatim>\<open>if (id)\<close>: \<^verbatim>\<open>null\<close> and the empty string are both
  falsy. \<open>truthyId\<close> keeps an id exactly when that test passes.
\<close>

definition truthyId :: "string option \<Rightarrow> string option" where
  "truthyId s = (case s of None \<Rightarrow> None | Some i \<Rightarrow> if i = [] then None else Some i)"

definition toolMove :: "string option \<Rightarrow> EditorState \<Rightarrow> EditorState" where
  "toolMove hitPointId st =
     (case truthyId hitPointId of
        Some h \<Rightarrow> st\<lparr>st_draggingPointId := Some h\<rparr>
      | None \<Rightarrow> st)"

text \<open>
  A zero \<^verbatim>\<open>renderW\<close> or \<^verbatim>\<open>renderH\<close> makes the quotient an infinity or NaN in the
  program, which fails the range test; the model says so before it divides.
\<close>

definition toolAddPoint ::
  "EditorLayout \<Rightarrow> string \<Rightarrow> real \<Rightarrow> real \<Rightarrow> string option \<Rightarrow> EditorState \<Rightarrow> EditorState" where
  "toolAddPoint layout newId x y hitPointId st =
     (case truthyId hitPointId of
        Some _ \<Rightarrow> st
      | None \<Rightarrow>
          if lo_renderW layout = 0 \<or> lo_renderH layout = 0 then st
          else
            let normX = (x - lo_offsetX layout) / lo_renderW layout;
                normY = (y - lo_offsetY layout) / lo_renderH layout
            in if normX \<ge> 0 \<and> normX \<le> 1 \<and> normY \<ge> 0 \<and> normY \<le> 1 then
                 let newP = \<lparr>ep_id = newId, ep_x = normX, ep_y = normY\<rparr>;
                     prev = st_editorData st
                 in st\<lparr>st_editorData := prev\<lparr>ed_points := ed_points prev @ [newP]\<rparr>\<rparr>
               else st)"

definition toolConnect :: "string \<Rightarrow> string option \<Rightarrow> EditorState \<Rightarrow> EditorState" where
  "toolConnect newId hitPointId st =
     (case truthyId hitPointId of
        Some h \<Rightarrow>
          (case truthyId (st_connectingStartId st) of
             Some s \<Rightarrow>
               if s \<noteq> h then
                 let editorData = st_editorData st;
                     exists = list_ex (\<lambda>c. (ec_from c = s \<and> ec_to c = h)
                                        \<or> (ec_from c = h \<and> ec_to c = s))
                                (ed_connections editorData);
                     st1 = (if \<not> exists then
                              let newConn = \<lparr>ec_id = newId, ec_from = s, ec_to = h\<rparr>
                              in st\<lparr>st_editorData :=
                                     editorData\<lparr>ed_connections :=
                                       ed_connections editorData @ [newConn]\<rparr>\<rparr>
                            else st)
                 in st1\<lparr>st_connectingStartId := None\<rparr>
               else st\<lparr>st_connectingStartId := Some h\<rparr>
           | None \<Rightarrow> st\<lparr>st_connectingStartId := Some h\<rparr>)
      | None \<Rightarrow> st\<lparr>st_connectingStartId := None\<rparr>)"

definition toolDelete ::
  "string option \<Rightarrow> string option \<Rightarrow> string option \<Rightarrow> EditorState \<Rightarrow> EditorState" where
  "toolDelete hitPointId hitLineId hitAngleId st =
     (let prev = st_editorData st in
      case truthyId hitAngleId of
        Some ha \<Rightarrow>
          st\<lparr>st_editorData := prev\<lparr>ed_angles := filter (\<lambda>a. ea_id a \<noteq> ha) (ed_angles prev)\<rparr>\<rparr>
      | None \<Rightarrow>
          (case truthyId hitPointId of
             Some hp \<Rightarrow>
               st\<lparr>st_editorData :=
                    \<lparr>ed_points = filter (\<lambda>p. ep_id p \<noteq> hp) (ed_points prev),
                     ed_connections =
                       filter (\<lambda>c. ec_from c \<noteq> hp \<and> ec_to c \<noteq> hp) (ed_connections prev),
                     ed_angles =
                       filter (\<lambda>a. ea_p1 a \<noteq> hp \<and> ea_center a \<noteq> hp \<and> ea_p2 a \<noteq> hp)
                         (ed_angles prev)\<rparr>\<rparr>
           | None \<Rightarrow>
               (case truthyId hitLineId of
                  Some hl \<Rightarrow>
                    (case find (\<lambda>c. ec_id c = hl) (ed_connections prev) of
                       Some conn \<Rightarrow>
                         (let pA = ec_from conn;
                              pB = ec_to conn
                          in st\<lparr>st_editorData :=
                                  prev\<lparr>ed_connections :=
                                          filter (\<lambda>c. ec_id c \<noteq> hl) (ed_connections prev),
                                        ed_angles :=
                                          filter (\<lambda>a.
                                            let usesConnAsArm1 =
                                                  (ea_center a = pA \<and> (ea_p1 a = pB \<or> ea_p2 a = pB));
                                                usesConnAsArm2 =
                                                  (ea_center a = pB \<and> (ea_p1 a = pA \<or> ea_p2 a = pA))
                                            in \<not> (usesConnAsArm1 \<or> usesConnAsArm2))
                                            (ed_angles prev)\<rparr>\<rparr>)
                     | None \<Rightarrow> st)
                | None \<Rightarrow> st)))"

text \<open>
  The chain of four comparisons of the ANGLE branch, which fills \<^verbatim>\<open>centerId\<close>,
  \<^verbatim>\<open>p1Id\<close> and \<^verbatim>\<open>p2Id\<close> (all three stay \<^verbatim>\<open>null\<close> when no comparison succeeds).
\<close>

definition sharedVertex ::
  "EditorConnection \<Rightarrow> EditorConnection \<Rightarrow> string option \<times> string option \<times> string option" where
  "sharedVertex conn1 conn2 =
     (if ec_from conn1 = ec_from conn2 then
        (Some (ec_from conn1), Some (ec_to conn1), Some (ec_to conn2))
      else if ec_from conn1 = ec_to conn2 then
        (Some (ec_from conn1), Some (ec_to conn1), Some (ec_from conn2))
      else if ec_to conn1 = ec_from conn2 then
        (Some (ec_to conn1), Some (ec_from conn1), Some (ec_to conn2))
      else if ec_to conn1 = ec_to conn2 then
        (Some (ec_to conn1), Some (ec_from conn1), Some (ec_from conn2))
      else (None, None, None))"

text \<open>
  The toggle of the hit connection in the selection list: removed when present, pushed
  at the end when absent.
\<close>

definition toggleSelection :: "string \<Rightarrow> string list \<Rightarrow> string list" where
  "toggleSelection hitLineId selected =
     (if hitLineId \<in> set selected then filter (\<lambda>i. i \<noteq> hitLineId) selected
      else selected @ [hitLineId])"

definition toolAngle :: "string \<Rightarrow> string option \<Rightarrow> EditorState \<Rightarrow> EditorState" where
  "toolAngle newId hitLineId st =
     (case truthyId hitLineId of
        Some hl \<Rightarrow>
          (let editorData = st_editorData st;
               selected = st_selectedElementIds st;
               newSelection = toggleSelection hl selected
           in if length newSelection = 2 then
                (case (find (\<lambda>c. ec_id c = newSelection ! 0) (ed_connections editorData),
                       find (\<lambda>c. ec_id c = newSelection ! 1) (ed_connections editorData)) of
                   (Some conn1, Some conn2) \<Rightarrow>
                     (case sharedVertex conn1 conn2 of (centerId, p1Id, p2Id) \<Rightarrow>
                        (case (truthyId centerId, truthyId p1Id, truthyId p2Id) of
                           (Some c, Some p1, Some p2) \<Rightarrow>
                             (let alreadyExists =
                                    list_ex (\<lambda>a. ea_center a = c
                                               \<and> ((ea_p1 a = p1 \<and> ea_p2 a = p2)
                                                    \<or> (ea_p1 a = p2 \<and> ea_p2 a = p1)))
                                      (ed_angles editorData);
                                  st1 = (if \<not> alreadyExists then
                                           let newAngle = \<lparr>ea_id = newId, ea_p1 = p1,
                                                            ea_center = c, ea_p2 = p2\<rparr>
                                           in st\<lparr>st_editorData :=
                                                  editorData\<lparr>ed_angles :=
                                                    ed_angles editorData @ [newAngle]\<rparr>\<rparr>
                                         else st)
                              in st1\<lparr>st_selectedElementIds := []\<rparr>)
                         | _ \<Rightarrow> st\<lparr>st_selectedElementIds := [hl]\<rparr>))
                 | _ \<Rightarrow> st\<lparr>st_selectedElementIds := newSelection\<rparr>)
              else st\<lparr>st_selectedElementIds := newSelection\<rparr>)
      | None \<Rightarrow> st\<lparr>st_selectedElementIds := []\<rparr>)"

text \<open>
  \<^verbatim>\<open>handleStart\<close> runs the three hit tests and then one branch of its chain of tests on
  \<^verbatim>\<open>activeTool\<close>; the five branches are the functions \<open>toolMove\<close>, \<open>toolAddPoint\<close>,
  \<open>toolConnect\<close>, \<open>toolDelete\<close> and \<open>toolAngle\<close> above. \<open>newId\<close> is the string the
  call of \<^verbatim>\<open>generateId()\<close> returns in this event, \<open>x\<close> and \<open>y\<close> are the canvas
  coordinates \<^verbatim>\<open>getNormPos\<close> returns.
\<close>

definition handleStart ::
  "bool \<Rightarrow> EditorTool \<Rightarrow> EditorLayout \<Rightarrow> string \<Rightarrow> real \<Rightarrow> real \<Rightarrow> EditorState \<Rightarrow> EditorState" where
  "handleStart showSkeleton activeTool layout newId x y st =
     (if \<not> showSkeleton then st
      else
        let editorData = st_editorData st;
            hitPointId = hitTestPoint x y (ed_points editorData) layout 45;
            hitLineId = hitTestConnection x y (ed_connections editorData)
                          (ed_points editorData) layout 30;
            hitAngleId = hitTestAngle x y (ed_angles editorData) (ed_points editorData) layout 35
        in case activeTool of
             MOVE \<Rightarrow> toolMove hitPointId st
           | ADD_POINT \<Rightarrow> toolAddPoint layout newId x y hitPointId st
           | CONNECT \<Rightarrow> toolConnect newId hitPointId st
           | DELETE \<Rightarrow> toolDelete hitPointId hitLineId hitAngleId st
           | ANGLE \<Rightarrow> toolAngle newId hitLineId st)"

section \<open>Health reports\<close>

datatype WarningLevel = Low | Medium | High

record HealthWarning =
  hw_level :: WarningLevel
  hw_message :: string
  hw_futureRisk :: string

record HealthReport =
  hr_score :: int
  hr_title :: string
  hr_description :: string
  hr_details :: "string list"
  hr_warnings :: "HealthWarning list"

text \<open>
  The translator is a collaborator of the tests: a function of a key and of arguments that
  are strings or numbers. It is a parameter of every \<^verbatim>\<open>analyze\<close>.
\<close>

datatype TArg = TStr string | TNum real

type_synonym Translator = "string \<Rightarrow> TArg list \<Rightarrow> string"

section \<open>services/orthopedicService.ts: the single-image tests\<close>

definition shoulder_level_analyze :: "SkeletonData \<Rightarrow> Translator \<Rightarrow> HealthReport option" where
  "shoulder_level_analyze data t =
     (case (data ''leftShoulder'', data ''rightShoulder'') of
        (Some left, Some right) \<Rightarrow>
          (let deviation = calculateHorizontalDeviation left right;
               (score, title, warnings) =
                 (if deviation > 5 then
                    (max 0 (100 - deviation * 5),
                     t ''diag.shoulder.significant'' [],
                     [\<lparr>hw_level = (if deviation > 10 then High else Medium),
                       hw_message = t ''diag.shoulder.msg_significant'' [TNum (real_of_int deviation)],
                       hw_futureRisk = t ''risk.shoulder.chronic'' []\<rparr>])
                  else if deviation > 2 then
                    (90,
                     t ''diag.shoulder.mild'' [],
                     [\<lparr>hw_level = Low,
                       hw_message = t ''diag.shoulder.msg_mild'' [TNum (real_of_int deviation)],
                       hw_futureRisk = t ''risk.shoulder.muscle'' []\<rparr>])
                  else (100, t ''diag.shoulder.balanced'' [], []))
           in Some \<lparr>hr_score = score,
                    hr_title = title,
                    hr_description = (if deviation \<le> 2 then t ''desc.shoulder.good'' []
                                      else t ''desc.shoulder.bad'' []),
                    hr_details = [t ''detail.shoulder.angle'' [TNum (real_of_int deviation)]],
                    hr_warnings = warnings\<rparr>)
      | _ \<Rightarrow> None)"

definition orElse :: "'a option \<Rightarrow> 'a option \<Rightarrow> 'a option" where
  "orElse a b = (case a of Some v \<Rightarrow> Some v | None \<Rightarrow> b)"

definition forward_head_analyze :: "SkeletonData \<Rightarrow> Translator \<Rightarrow> HealthReport option" where
  "forward_head_analyze data t =
     (let ear = orElse (data ''leftEar'') (data ''rightEar'');
          shoulder = orElse (data ''leftShoulder'') (data ''rightShoulder'')
      in case (ear, shoulder) of
           (Some e, Some s) \<Rightarrow>
             (let deviation = calculateVerticalDeviation e s;
                  (score, title, warnings) =
                    (if deviation > 25 then
                       (50,
                        t ''diag.head.severe'' [],
                        [\<lparr>hw_level = High,
                          hw_message = t ''diag.head.msg_severe'' [TNum (real_of_int deviation)],
                          hw_futureRisk = t ''risk.head.severe'' []\<rparr>])
                     else if deviation > 15 then
                       (75,
                        t ''diag.head.mild'' [],
                        [\<lparr>hw_level = Medium,
                          hw_message = t ''diag.head.msg_mild'' [TNum (real_of_int deviation)],
                          hw_futureRisk = t ''risk.head.mild'' []\<rparr>])
                     else (100, t ''diag.head.good'' [], []))
              in Some \<lparr>hr_score = score,
                       hr_title = title,
                       hr_description = (if deviation \<le> 15 then t ''desc.head.good'' []
                                         else t ''desc.head.bad'' []),
                       hr_details = [t ''detail.head.angle'' [TNum (real_of_int deviation)]],
                       hr_warnings = warnings\<rparr>)
         | _ \<Rightarrow> None)"

definition leg_alignment_analyze :: "SkeletonData \<Rightarrow> Translator \<Rightarrow> HealthReport option" where
  "leg_alignment_analyze data t =
     (case (data ''leftHip'', data ''leftKnee'', data ''leftAnkle'',
            data ''rightHip'', data ''rightKnee'', data ''rightAnkle'') of
        (Some lHip, Some lKnee, Some lAnkle, Some rHip, Some rKnee, Some rAnkle) \<Rightarrow>
          (let leftAngle = calculateAngle lHip lKnee lAnkle;
               rightAngle = calculateAngle rHip rKnee rAnkle;
               (score, title, description, warnings) =
                 (if leftAngle < 165 \<or> rightAngle < 165 then
                    (60,
                     t ''diag.leg.valgus'' [],
                     t ''diag.leg.desc_valgus'' [],
                     [\<lparr>hw_level = Medium,
                       hw_message = t ''diag.leg.msg''
                                      [TNum (real_of_int leftAngle), TNum (real_of_int rightAngle)],
                       hw_futureRisk = t ''risk.leg.acl'' []\<rparr>])
                  else if leftAngle > 185 \<or> rightAngle > 185 then
                    (80, t ''diag.leg.good'' [], t ''diag.leg.desc_good'' [], [])
                  else (100, t ''diag.leg.good'' [], t ''diag.leg.desc_good'' [], []))
           in Some \<lparr>hr_score = score,
                    hr_title = title,
                    hr_description = description,
                    hr_details = [t ''detail.leg.left'' [TNum (real_of_int leftAngle)],
                                  t ''detail.leg.right'' [TNum (real_of_int rightAngle)]],
                    hr_warnings = warnings\<rparr>)
      | _ \<Rightarrow> None)"

section \<open>The multi-pose tests (the second orthopedicService.ts)\<close>

record BoundingBox =
  bb_ymin :: real
  bb_xmin :: real
  bb_ymax :: real
  bb_xmax :: real

record AIAnalysisResult =
  ar_skeleton :: SkeletonData
  ar_faceBox :: "BoundingBox option"
  ar_confidence :: real

type_synonym DataMap = "string \<rightharpoonup> AIAnalysisResult"

text \<open>
  Number formatting belongs to the language: \<^verbatim>\<open>toFixed(1)\<close> and the conversion of a number
  inside a template literal are parameters. The degree sign is the single code unit U+00B0.
\<close>

record NumberFormat =
  nf_toFixed1 :: "real \<Rightarrow> string"
  nf_toString :: "real \<Rightarrow> string"

definition degreeSign :: string where
  "degreeSign = [char_of (176::nat)]"

definition scorePose :: "NumberFormat \<Rightarrow> DataMap \<Rightarrow> string \<Rightarrow> AngleDef \<Rightarrow> int \<times> string" where
  "scorePose nf dataMap poseId angleDef =
     (case dataMap poseId of
        None \<Rightarrow> (- 1, ''--'')
      | Some raw \<Rightarrow>
          (let kps = buildEnrichedSkeleton (ar_skeleton raw);
               angle = computeAngle kps angleDef
           in case angle of
                None \<Rightarrow> (- 1, ''--'')
              | Some a \<Rightarrow>
                  (getLinearScore (Some a) (ad_min angleDef) (ad_max angleDef),
                   nf_toFixed1 nf a @ degreeSign @ '' / ''
                     @ nf_toString nf (ad_max angleDef) @ degreeSign)))"

text \<open>
  Every single-angle pose is handled by the same block of three statements: call
  \<^verbatim>\<open>scorePose\<close>, push the score when it is not negative, push the detail line.
  \<open>poseBlock\<close> is that block, acting on the two lists \<^verbatim>\<open>scores\<close> and \<^verbatim>\<open>details\<close>.
\<close>

definition poseBlock ::
  "NumberFormat \<Rightarrow> DataMap \<Rightarrow> string \<Rightarrow> AngleDef \<Rightarrow> string \<Rightarrow> int list \<times> string list
     \<Rightarrow> int list \<times> string list" where
  "poseBlock nf dataMap poseId angleDef label acc =
     (case acc of (scores, details) \<Rightarrow>
        (case scorePose nf dataMap poseId angleDef of (score, angleStr) \<Rightarrow>
           ((if score \<ge> 0 then scores @ [score] else scores),
            details @ [label @ '': '' @ angleStr])))"

definition FRONT_LEFT :: AngleDef where
  "FRONT_LEFT = \<lparr>ad_center = ''leftShoulder'', ad_joint1 = ''vertical'',
                  ad_joint2 = ''leftBiceps'', ad_min = 0, ad_max = 180\<rparr>"

definition FRONT_RIGHT :: AngleDef where
  "FRONT_RIGHT = \<lparr>ad_center = ''rightShoulder'', ad_joint1 = ''rightBiceps'',
                   ad_joint2 = ''vertical'', ad_min = 0, ad_max = 180\<rparr>"

definition LEFT_FWD :: AngleDef where
  "LEFT_FWD = \<lparr>ad_center = ''leftShoulder'', ad_joint1 = ''leftBiceps'',
                ad_joint2 = ''vertical'', ad_min = 0, ad_max = 180\<rparr>"

definition RIGHT_FWD :: AngleDef where
  "RIGHT_FWD = \<lparr>ad_center = ''rightShoulder'', ad_joint1 = ''vertical'',
                 ad_joint2 = ''rightBiceps'', ad_min = 0, ad_max = 180\<rparr>"

definition LEFT_BWD :: AngleDef where
  "LEFT_BWD = \<lparr>ad_center = ''leftShoulder'', ad_joint1 = ''vertical'',
                ad_joint2 = ''leftBiceps'', ad_min = 0, ad_max = 50\<rparr>"

definition RIGHT_BWD :: AngleDef where
  "RIGHT_BWD = \<lparr>ad_center = ''rightShoulder'', ad_joint1 = ''rightBiceps'',
                 ad_joint2 = ''vertical'', ad_min = 0, ad_max = 50\<rparr>"

definition optFixed :: "NumberFormat \<Rightarrow> real option \<Rightarrow> string" where
  "optFixed nf a = (case a of Some v \<Rightarrow> nf_toFixed1 nf v | None \<Rightarrow> ''--'')"

definition frontShoulderBlock ::
  "NumberFormat \<Rightarrow> DataMap \<Rightarrow> Translator \<Rightarrow> int list \<times> string list \<Rightarrow> int list \<times> string list" where
  "frontShoulderBlock nf dataMap t acc =
     (case acc of (scores, details) \<Rightarrow>
        (case dataMap ''frontShoulder'' of
           None \<Rightarrow> (scores, details)
         | Some raw \<Rightarrow>
             (let kps = buildEnrichedSkeleton (ar_skeleton raw);
                  aLeft = computeAngle kps FRONT_LEFT;
                  aRight = computeAngle kps FRONT_RIGHT;
                  sLeft = (case aLeft of
                             Some a \<Rightarrow> getLinearScore (Some a) (ad_min FRONT_LEFT) (ad_max FRONT_LEFT)
                           | None \<Rightarrow> - 1);
                  sRight = (case aRight of
                              Some a \<Rightarrow> getLinearScore (Some a) (ad_min FRONT_RIGHT) (ad_max FRONT_RIGHT)
                            | None \<Rightarrow> - 1);
                  avg = getAverageScore [real_of_int sLeft, real_of_int sRight]
              in ((if avg \<ge> 0 then scores @ [avg] else scores),
                  details @ [t ''pose.shoulder.front'' [] @ '': L='' @ optFixed nf aLeft
                             @ degreeSign @ '' R='' @ optFixed nf aRight
                             @ degreeSign @ '' (max 180'' @ degreeSign @ '')'']))))"

definition shoulder_mobility_analyze ::
  "NumberFormat \<Rightarrow> DataMap \<Rightarrow> Translator \<Rightarrow> HealthReport option" where
  "shoulder_mobility_analyze nf dataMap t =
     (let acc0 = ([], []);
          acc1 = frontShoulderBlock nf dataMap t acc0;
          acc2 = poseBlock nf dataMap ''leftShoulder'' LEFT_FWD
                   (t ''pose.shoulder.left_forward'' []) acc1;
          acc3 = poseBlock nf dataMap ''rightShoulder'' RIGHT_FWD
                   (t ''pose.shoulder.right_forward'' []) acc2;
          acc4 = poseBlock nf dataMap ''leftShoulderBackward'' LEFT_BWD
                   (t ''pose.shoulder.left_backward'' []) acc3;
          acc5 = poseBlock nf dataMap ''rightShoulderBackward'' RIGHT_BWD
                   (t ''pose.shoulder.right_backward'' []) acc4;
          scores = fst acc5;
          details = snd acc5;
          totalScore = getAverageScore (map real_of_int scores)
      in Some \<lparr>hr_score = totalScore,
               hr_title = (if totalScore > 80 then t ''diag.shoulder.good'' []
                           else t ''diag.shoulder.restricted'' []),
               hr_description = (if totalScore > 80 then t ''desc.shoulder.good'' []
                                 else t ''desc.shoulder.restricted'' []),
               hr_details = details,
               hr_warnings = []\<rparr>)"

definition NECK_RIGHT_SIDE :: AngleDef where
  "NECK_RIGHT_SIDE = \<lparr>ad_center = ''manubrium'', ad_joint1 = ''-vertical'',
                       ad_joint2 = ''neck'', ad_min = 0, ad_max = 50\<rparr>"

definition NECK_LEFT_SIDE :: AngleDef where
  "NECK_LEFT_SIDE = \<lparr>ad_center = ''manubrium'', ad_joint1 = ''neck'',
                      ad_joint2 = ''-vertical'', ad_min = 0, ad_max = 50\<rparr>"

definition NECK_FRONT :: AngleDef where
  "NECK_FRONT = \<lparr>ad_center = ''manubrium'', ad_joint1 = ''rightNeck'',
                  ad_joint2 = ''-vertical'', ad_min = 0, ad_max = 60\<rparr>"

definition NECK_BACK :: AngleDef where
  "NECK_BACK = \<lparr>ad_center = ''manubrium'', ad_joint1 = ''-vertical'',
                 ad_joint2 = ''rightNeck'', ad_min = - 30, ad_max = 50\<rparr>"

definition neck_mobility_analyze ::
  "NumberFormat \<Rightarrow> DataMap \<Rightarrow> Translator \<Rightarrow> HealthReport option" where
  "neck_mobility_analyze nf dataMap t =
     (let acc0 = ([], []);
          acc1 = poseBlock nf dataMap ''neckRightSideBend'' NECK_RIGHT_SIDE
                   (t ''pose.neck.right_side_bend'' []) acc0;
          acc2 = poseBlock nf dataMap ''neckLeftSideBend'' NECK_LEFT_SIDE
                   (t ''pose.neck.left_side_bend'' []) acc1;
          acc3 = poseBlock nf dataMap ''neckFrontBend'' NECK_FRONT
                   (t ''pose.neck.front_bend'' []) acc2;
          acc4 = poseBlock nf dataMap ''neckBackBend'' NECK_BACK
                   (t ''pose.neck.back_bend'' []) acc3;
          scores = fst acc4;
          details = snd acc4;
          totalScore = getAverageScore (map real_of_int scores)
      in Some \<lparr>hr_score = totalScore,
               hr_title = t ''diag.neck.good'' [],
               hr_description = t ''desc.neck.good'' [],
               hr_details = details,
               hr_warnings = []\<rparr>)"

definition wrist_mobility_analyze :: "DataMap \<Rightarrow> Translator \<Rightarrow> HealthReport option" where
  "wrist_mobility_analyze dataMap t =
     Some \<lparr>hr_score = - 1,
           hr_title = t ''diag.wrist.unavailable'' [],
           hr_description = t ''desc.wrist.unavailable'' [],
           hr_details = [t ''detail.wrist.needs_hand_model'' []],
           hr_warnings = []\<rparr>"

text \<open>
  The posture test measures its tilts and shifts directly on point pairs. Its two tilt
  blocks (shoulders, hips) differ in the points, the bounds and the translation key
  only, and so do its two shift blocks (ear, shoulder): \<open>tiltBlock\<close> and \<open>shiftBlock\<close>
  are those blocks with the differing parts as arguments. The optional third argument
  \<^verbatim>\<open>patientHeight\<close> defaults to 170, and \<^verbatim>\<open>Math.abs(...) || 0.5\<close> replaces a zero body
  fraction by 0.5.
\<close>

definition SHOULDER_TILT :: AngleDef where
  "SHOULDER_TILT = \<lparr>ad_center = ''leftShoulder'', ad_joint1 = ''-shoulders'',
                     ad_joint2 = ''horizontal'', ad_min = 20, ad_max = 0\<rparr>"

definition tiltBlock ::
  "NumberFormat \<Rightarrow> Translator \<Rightarrow> Point option \<Rightarrow> Point option \<Rightarrow> real \<Rightarrow> real \<Rightarrow> string
     \<Rightarrow> int list \<times> string list \<Rightarrow> int list \<times> string list" where
  "tiltBlock nf t l r mn mx key acc =
     (case acc of (scores, details) \<Rightarrow>
        (case (l, r) of
           (Some lP, Some rP) \<Rightarrow>
             (let dx = pt_x rP - pt_x lP;
                  dy = pt_y rP - pt_y lP;
                  ang = atan2 dy dx * (180 / pi);
                  absAng = \<bar>ang\<bar>;
                  dir = (if dy > 0 then t ''direction.right'' [] else t ''direction.left'' [])
              in (scores @ [getLinearScore (Some absAng) mn mx],
                  details @ [t key [TStr (nf_toFixed1 nf absAng), TStr dir]]))
         | _ \<Rightarrow> (scores, details)))"

definition shiftBlock ::
  "NumberFormat \<Rightarrow> Translator \<Rightarrow> real \<Rightarrow> Point option \<Rightarrow> Point option \<Rightarrow> Point option \<Rightarrow> real
     \<Rightarrow> string \<Rightarrow> int list \<times> string list \<Rightarrow> int list \<times> string list" where
  "shiftBlock nf t patientHeight upper ankle nose mn key acc =
     (case acc of (scores, details) \<Rightarrow>
        (case (ankle, upper) of
           (Some a, Some u) \<Rightarrow>
             (let ankleY = pt_y a;
                  noseY = (case nose of Some n \<Rightarrow> pt_y n | None \<Rightarrow> 0);
                  bodyFraction = (if \<bar>noseY - ankleY\<bar> = 0 then 0.5 else \<bar>noseY - ankleY\<bar>);
                  cmPerUnit = (patientHeight - 10) / bodyFraction;
                  shiftXCm = \<bar>(pt_x a - pt_x u) * cmPerUnit\<bar>;
                  dir = (if pt_x u < pt_x a then t ''direction.front'' []
                         else t ''direction.back'' [])
              in (scores @ [getLinearScore (Some shiftXCm) mn 0],
                  details @ [t key [TStr (nf_toFixed1 nf shiftXCm), TStr dir]]))
         | _ \<Rightarrow> (scores, details)))"

definition posture_analysis_analyze ::
  "NumberFormat \<Rightarrow> DataMap \<Rightarrow> Translator \<Rightarrow> real option \<Rightarrow> HealthReport option" where
  "posture_analysis_analyze nf dataMap t patientHeightArg =
     (let patientHeight = (case patientHeightArg of Some h \<Rightarrow> h | None \<Rightarrow> 170);
          acc0 = ([], []);
          acc1 = (case dataMap ''front'' of
                    None \<Rightarrow> acc0
                  | Some raw \<Rightarrow>
                      (let kps = buildEnrichedSkeleton (ar_skeleton raw);
                           a = tiltBlock nf t (kps ''leftShoulder'') (kps ''rightShoulder'')
                                 (ad_min SHOULDER_TILT) (ad_max SHOULDER_TILT)
                                 ''detail.posture.shoulder_tilt'' acc0
                       in tiltBlock nf t (kps ''leftHip'') (kps ''rightHip'') 20 0
                            ''detail.posture.hip_tilt'' a));
          acc2 = (case dataMap ''side'' of
                    None \<Rightarrow> acc1
                  | Some raw \<Rightarrow>
                      (let kps = buildEnrichedSkeleton (ar_skeleton raw);
                           a = shiftBlock nf t patientHeight (kps ''leftEar'') (kps ''leftAnkle'')
                                 (kps ''nose'') 13 ''detail.posture.ear_shift'' acc1
                       in shiftBlock nf t patientHeight (kps ''leftShoulder'') (kps ''leftAnkle'')
                            (kps ''nose'') 8 ''detail.posture.shoulder_shift'' a));
          scores = fst acc2;
          details = snd acc2;
          totalScore = getAverageScore (map real_of_int scores)
      in Some \<lparr>hr_score = totalScore,
               hr_title = (if totalScore > 80 then t ''diag.posture.good'' []
                           else t ''diag.posture.imbalance'' []),
               hr_description = (if totalScore > 80 then t ''desc.posture.good'' []
                                 else t ''desc.posture.imbalance'' []),
               hr_details = details,
               hr_warnings = []\<rparr>)"

section \<open>Prerequisite keypoints of the tests\<close>

text \<open>
  The keypoints each test reads from its skeleton input, and the pose ids under which a
  multi-pose test looks its inputs up. \<open>lacksAll keys skeleton\<close> says that the skeleton
  has none of the keys; \<open>posesLackAll poses keys dataMap\<close> says so of every pose that is
  supplied.
\<close>

definition lacksAll :: "string list \<Rightarrow> SkeletonData \<Rightarrow> bool" where
  "lacksAll keys skeleton = list_all (\<lambda>k. skeleton k = None) keys"

definition posesLackAll :: "string list \<Rightarrow> string list \<Rightarrow> DataMap \<Rightarrow> bool" where
  "posesLackAll poses keys dataMap =
     list_all (\<lambda>p. case dataMap p of None \<Rightarrow> True
                     | Some raw \<Rightarrow> lacksAll keys (ar_skeleton raw)) poses"

definition shoulder_level_keys :: "string list" where
  "shoulder_level_keys = [''leftShoulder'', ''rightShoulder'']"

definition forward_head_keys :: "string list" where
  "forward_head_keys = [''leftEar'', ''rightEar'', ''leftShoulder'', ''rightShoulder'']"

definition leg_alignment_keys :: "string list" where
  "leg_alignment_keys =
     [''leftHip'', ''leftKnee'', ''leftAnkle'', ''rightHip'', ''rightKnee'', ''rightAnkle'']"

definition shoulder_mobility_poses :: "string list" where
  "shoulder_mobility_poses =
     [''frontShoulder'', ''leftShoulder'', ''rightShoulder'', ''leftShoulderBackward'',
      ''rightShoulderBackward'']"

definition shoulder_mobility_keys :: "string list" where
  "shoulder_mobility_keys = [''leftShoulder'', ''leftElbow'', ''rightShoulder'', ''rightElbow'']"

definition neck_mobility_poses :: "string list" where
  "neck_mobility_poses =
     [''neckRightSideBend'', ''neckLeftSideBend'', ''neckFrontBend'', ''neckBackBend'']"

definition neck_mobility_keys :: "string list" where
  "neck_mobility_keys = [''leftShoulder'', ''rightShoulder'', ''nose'', ''rightEar'']"

definition posture_analysis_poses :: "string list" where
  "posture_analysis_poses = [''front'', ''side'']"

definition posture_analysis_keys :: "string list" where
  "posture_analysis_keys =
     [''leftShoulder'', ''rightShoulder'', ''leftHip'', ''rightHip'', ''leftAnkle'', ''leftEar'']"

section \<open>Concrete inputs\<close>

text \<open>
  A skeleton with a horizontal left upper arm, and an editor graph in the shape of a
  cross on a 400 by 400 render area: \<open>A\<close>, \<open>B\<close>, \<open>C\<close> on a horizontal line,
  \<open>D\<close>, \<open>B\<close>, \<open>E\<close> on a vertical line, with two straight angles at \<open>B\<close>.
\<close>

definition exKps :: "string \<rightharpoonup> Point" where
  "exKps = [''leftShoulder'' \<mapsto> \<lparr>pt_x = 0, pt_y = 0\<rparr>, ''leftElbow'' \<mapsto> \<lparr>pt_x = 1, pt_y = 0\<rparr>]"




definition exDef :: AngleDef where
  "exDef = \<lparr>ad_center = ''leftShoulder'', ad_joint1 = ''vertical'', ad_joint2 = ''leftBiceps'',
             ad_min = 0, ad_max = 180\<rparr>"

text \<open>
  A translator without entries returns the key it is given. \<open>exPoses\<close> supplies every
  pose with a skeleton that has no keypoint.
\<close>

definition exT :: Translator where
  "exT key args = key"

definition exNf :: NumberFormat where
  "exNf = \<lparr>nf_toFixed1 = (\<lambda>r. ''0.0''), nf_toString = (\<lambda>r. ''0'')\<rparr>"

definition exPoses :: DataMap where
  "exPoses = (\<lambda>pose. Some \<lparr>ar_skeleton = Map.empty, ar_faceBox = None, ar_confidence = 0\<rparr>)"

definition exLayout :: EditorLayout where
  "exLayout = \<lparr>lo_renderW = 400, lo_renderH = 400, lo_offsetX = 0, lo_offsetY = 0\<rparr>"

definition exA :: EditorPoint where
  "exA = \<lparr>ep_id = ''A'', ep_x = 0, ep_y = 1 / 2\<rparr>"

definition exB :: EditorPoint where
  "exB = \<lparr>ep_id = ''B'', ep_x = 1 / 2, ep_y = 1 / 2\<rparr>"

definition exC :: EditorPoint where
  "exC = \<lparr>ep_id = ''C'', ep_x = 1, ep_y = 1 / 2\<rparr>"

definition exD :: EditorPoint where
  "exD = \<lparr>ep_id = ''D'', ep_x = 1 / 2, ep_y = 0\<rparr>"

definition exE :: EditorPoint where
  "exE = \<lparr>ep_id = ''E'', ep_x = 1 / 2, ep_y = 1\<rparr>"

definition exPoints :: "EditorPoint list" where
  "exPoints = [exA, exB, exC, exD, exE]"

definition exC1 :: EditorConnection where
  "exC1 = \<lparr>ec_id = ''c1'', ec_from = ''A'', ec_to = ''B''\<rparr>"

definition exC2 :: EditorConnection where
  "exC2 = \<lparr>ec_id = ''c2'', ec_from = ''B'', ec_to = ''C''\<rparr>"

definition exC3 :: EditorConnection where
  "exC3 = \<lparr>ec_id = ''c3'', ec_from = ''D'', ec_to = ''B''\<rparr>"

definition exC4 :: EditorConnection where
  "exC4 = \<lparr>ec_id = ''c4'', ec_from = ''B'', ec_to = ''E''\<rparr>"

definition exC5 :: EditorConnection where
  "exC5 = \<lparr>ec_id = ''c5'', ec_from = ''C'', ec_to = ''E''\<rparr>"

definition exConns :: "EditorConnection list" where
  "exConns = [exC1, exC2, exC3, exC4, exC5]"

definition exG1 :: EditorAngle where
  "exG1 = \<lparr>ea_id = ''g1'', ea_p1 = ''A'', ea_center = ''B'', ea_p2 = ''C''\<rparr>"

definition exG2 :: EditorAngle where
  "exG2 = \<lparr>ea_id = ''g2'', ea_p1 = ''D'', ea_center = ''B'', ea_p2 = ''E''\<rparr>"

definition exAngles :: "EditorAngle list" where
  "exAngles = [exG1, exG2]"

definition exData :: EditorData where
  "exData = \<lparr>ed_points = exPoints, ed_connections = exConns, ed_angles = exAngles\<rparr>"

definition exState :: "string option \<Rightarrow> string list \<Rightarrow> EditorState" where
  "exState start sel = \<lparr>st_editorData = exData, st_draggingPointId = None,
                         st_connectingStartId = start, st_selectedElementIds = sel\<rparr>"

section \<open>Facts about \<open>atan2\<close>\<close>

lemma atan2_bounds: "- pi < atan2 b a \<and> atan2 b a \<le> pi"
proof -
  have B: "- (pi / 2) < arctan (b / a)" "arctan (b / a) < pi / 2"
    using arctan_bounded[of "b / a"] by auto
  have pos: "0 < pi" by (rule pi_gt_zero)
  consider (p) "0 < a" | (n1) "a < 0" "0 \<le> b" | (n2) "a < 0" "b < 0" | (z) "a = 0"
    by linarith
  then show ?thesis
  proof cases
    case p
    then have "atan2 b a = arctan (b / a)" by (simp add: atan2_def)
    then show ?thesis using B pos by linarith
  next
    case n1
    then have "b / a \<le> 0" by (simp add: divide_nonneg_neg)
    then have "arctan (b / a) \<le> 0" by (simp add: arctan_le_zero_iff)
    moreover have "atan2 b a = arctan (b / a) + pi" using n1 by (simp add: atan2_def)
    ultimately show ?thesis using B pos by linarith
  next
    case n2
    then have "0 < b / a" by (simp add: divide_neg_neg)
    then have "0 < arctan (b / a)" by simp
    moreover have "atan2 b a = arctan (b / a) - pi" using n2 by (simp add: atan2_def)
    ultimately show ?thesis using B pos by linarith
  next
    case z
    then have "atan2 b a = pi / 2 \<or> atan2 b a = - (pi / 2) \<or> atan2 b a = 0"
      by (simp add: atan2_def)
    then show ?thesis using pos by linarith
  qed
qed




lemma atan2_1_0: "atan2 1 0 = pi / 2"
  by (simp add: atan2_def)

lemma atan2_m1_0: "atan2 (- 1) 0 = - (pi / 2)"
  by (simp add: atan2_def)


lemma deg_neg_iff: "(t * (180 / pi) < 0) = (t < (0::real))"
proof -
  have k: "0 < 180 / pi" using pi_gt_zero by simp
  show ?thesis unfolding mult_less_0_iff using k by auto
qed

lemma cos_3pi2: "cos (3 * pi / 2) = 0"
proof -
  have "3 * pi / 2 = pi + pi / 2" by simp
  then show ?thesis by (simp only: cos_periodic_pi2 cos_pi_half)
qed

lemma sin_3pi2: "sin (3 * pi / 2) = - 1"
proof -
  have "3 * pi / 2 = pi + pi / 2" by simp
  then show ?thesis by (simp only: sin_periodic_pi2 sin_pi_half)
qed

lemma pi_not_le0: "\<not> pi \<le> 0"
  using pi_gt_zero by linarith

section \<open>Rounding to double precision\<close>





lemma round_even_near:
  assumes "\<bar>r - real_of_int m\<bar> \<le> 1 / 2" "even m"
  shows "round_even r = m"
proof -
  consider (lt) "r < real_of_int m" | (ge) "real_of_int m \<le> r" by linarith
  then show ?thesis
  proof cases
    case ge
    have "r < real_of_int m + 1" using assms(1) by linarith
    then have f: "\<lfloor>r\<rfloor> = m" using ge by linarith
    have "r - real_of_int m \<le> 1 / 2" using assms(1) by linarith
    then show ?thesis using assms(2) f unfolding round_even_def Let_def by auto
  next
    case lt
    have "real_of_int m - 1 \<le> r" using assms(1) by linarith
    then have f: "\<lfloor>r\<rfloor> = m - 1" using lt by linarith
    have odd: "\<not> even (m - 1)" using assms(2) by simp
    have "r - real_of_int (m - 1) \<ge> 1 / 2" using assms(1) lt by simp
    then show ?thesis using f odd unfolding round_even_def Let_def by auto
  qed
qed

lemma pow_as_powr: "(2::real) ^ k = 2 powr real k"
  by (simp add: powr_realpow)

lemma fl64_binade:
  fixes k :: nat
  assumes "k \<le> 52" "2 ^ k \<le> x" "x < 2 ^ (Suc k)"
  shows "fl64 x = real_of_int (round_even (x * 2 ^ (52 - k))) / 2 ^ (52 - k)"
proof -
  have "0 < (2::real) ^ k" by simp
  then have pos: "0 < x" using assms(2) by linarith
  have lo: "2 powr real_of_int (int k) \<le> x"
    using assms(2) by (simp only: pow_as_powr of_int_of_nat_eq)
  have "real (Suc k) = real_of_int (int k + 1)" by simp
  then have hi: "x < 2 powr real_of_int (int k + 1)"
    using assms(3) by (simp only: pow_as_powr)
  have fl: "\<lfloor>log 2 x\<rfloor> = int k"
    using floor_log_eq_powr_iff[of x 2 "int k"] pos lo hi by simp
  have ax: "\<bar>x\<bar> = x" using pos by simp
  have e: "max \<lfloor>log 2 \<bar>x\<bar>\<rfloor> (- 1022) = int k" unfolding ax fl by simp
  have eq: "real_of_int (int k - 52) = - real (52 - k)" using assms(1) by simp
  have "2 powr real_of_int (int k - 52) = 2 powr (- real (52 - k))" by (simp only: eq)
  also have "\<dots> = inverse (2 powr real (52 - k))" by (rule powr_minus)
  also have "\<dots> = inverse (2 ^ (52 - k))" by (simp only: pow_as_powr)
  finally have u: "2 powr real_of_int (int k - 52) = inverse (2 ^ (52 - k))" .
  have nz: "x \<noteq> 0" using pos by simp
  have "fl64 x = inverse (2 ^ (52 - k)) * real_of_int (round_even (x / inverse (2 ^ (52 - k))))"
    unfolding fl64_def Let_def e u using nz by (simp only: if_False)
  then show ?thesis by (simp add: divide_inverse mult.commute)
qed

lemma fl64_256_512:
  assumes "256 \<le> x" "x < 512"
  shows "fl64 x = real_of_int (round_even (x * 2 ^ 44)) / 2 ^ 44"
proof -
  have a: "(2::real) ^ 8 \<le> x" using assms(1) by simp
  have b: "x < (2::real) ^ (Suc 8)" using assms(2) by simp
  have k: "(8::nat) \<le> 52" by simp
  have d: "(52::nat) - 8 = 44" by simp
  show ?thesis using fl64_binade[OF k a b] by (simp only: d)
qed


lemma fl64_scaled_int:
  assumes "fl64 x = real_of_int (round_even (x * 2 ^ n)) / 2 ^ n"
    and "\<bar>x * 2 ^ n - real_of_int m\<bar> \<le> 1 / 2" "even m"
  shows "fl64 x = real_of_int m / 2 ^ n"
  using assms(1) round_even_near[OF assms(2,3)] by simp


lemma fl64_270: "fl64 270 = 270"
proof -
  have r: "256 \<le> (270::real)" "(270::real) < 512" by simp_all
  have near: "\<bar>270 * 2 ^ 44 - real_of_int (270 * 2 ^ 44)\<bar> \<le> 1 / 2" by simp
  have ev: "even ((270::int) * 2 ^ 44)" by simp
  have "fl64 270 = real_of_int (270 * 2 ^ 44) / 2 ^ 44"
    by (rule fl64_scaled_int[OF fl64_256_512[OF r] near ev])
  then show ?thesis by simp
qed





section \<open>The angle between two vectors\<close>









lemma computeAngleVector_quarter: "computeAngleVector (1, 0) (0, 1) = 90"
  by (simp add: computeAngleVector_def atan2_1_0)

lemma computeAngleVector_three_quarters: "computeAngleVector (0, 1) (1, 0) = 270"
  by (simp add: computeAngleVector_def atan2_m1_0 fl64_270)







section \<open>Evaluating an angle definition\<close>

lemma resolveVector_vertical: "resolveVector ''vertical'' kps = Some (0, 1)"
  by (simp add: resolveVector_def)

lemma resolveVector_leftBiceps_ex: "resolveVector ''leftBiceps'' exKps = Some (1, 0)"
  by (simp add: resolveVector_def startsWithDash_def JOINT_DICT_def exKps_def)

lemma resolveVector_leftBiceps_empty: "resolveVector ''leftBiceps'' Map.empty = None"
  by (simp add: resolveVector_def startsWithDash_def JOINT_DICT_def)

text \<open>
  Claim C1. For every angle definition and every enriched skeleton, \<open>computeAngle\<close>
  returns nothing when \<open>resolveVector\<close> returns nothing for \<open>joint1\<close> or for
  \<open>joint2\<close>; otherwise it returns \<open>computeAngleVector\<close> applied to the vector of
  \<open>joint2\<close> first and the vector of \<open>joint1\<close> second.
\<close>

theorem computeAngle_swapped_order:
  "(resolveVector (ad_joint1 d) kps = None \<or> resolveVector (ad_joint2 d) kps = None
      \<longrightarrow> computeAngle kps d = None)
   \<and> (\<forall>v1 v2. resolveVector (ad_joint1 d) kps = Some v1 \<and> resolveVector (ad_joint2 d) kps = Some v2
      \<longrightarrow> computeAngle kps d = Some (computeAngleVector v2 v1))"
  by (auto simp add: computeAngle_def split: option.splits)

text \<open>
  With \<open>joint1 = vertical\<close> and \<open>joint2 = leftBiceps\<close> on a horizontal upper arm the
  result is 90 degrees, the angle from the arm to the vertical; the declared order
  would give 270. On an empty skeleton there is no result.
\<close>

theorem computeAngle_swapped_order_witness:
  "resolveVector (ad_joint1 exDef) exKps = Some (0, 1)
   \<and> resolveVector (ad_joint2 exDef) exKps = Some (1, 0)
   \<and> computeAngle exKps exDef = Some (computeAngleVector (1, 0) (0, 1))
   \<and> computeAngleVector (1, 0) (0, 1) = 90
   \<and> computeAngleVector (0, 1) (1, 0) = 270
   \<and> resolveVector (ad_joint2 exDef) Map.empty = None
   \<and> computeAngle Map.empty exDef = None"
  using computeAngle_swapped_order[of exDef exKps] computeAngle_swapped_order[of exDef Map.empty]
  by (simp add: exDef_def resolveVector_vertical resolveVector_leftBiceps_ex
      resolveVector_leftBiceps_empty computeAngleVector_quarter
      computeAngleVector_three_quarters)

section \<open>Scores\<close>

text \<open>
  Claim C2. \<open>getLinearScore\<close> is 0 for an absent value. On a descending range
  (\<open>min > max\<close>) it is 100 for \<open>value \<le> max\<close>, 0 for \<open>value \<ge> min\<close>, and
  \<open>round (((value - min) / (max - min)) * 100)\<close> in between. On an ascending range
  (\<open>min \<le> max\<close>) the cases are taken in the order given: 0 for \<open>value \<le> 0\<close>, then 100
  for \<open>value \<ge> max\<close>, and \<open>round (value * 100 / max)\<close> otherwise; the result there does
  not depend on \<open>min\<close>.
\<close>

theorem getLinearScore_cases:
  "getLinearScore None mn mx = 0
   \<and> (mn > mx \<longrightarrow>
        (v \<le> mx \<longrightarrow> getLinearScore (Some v) mn mx = 100)
      \<and> (v \<ge> mn \<longrightarrow> getLinearScore (Some v) mn mx = 0)
      \<and> (mx < v \<and> v < mn \<longrightarrow>
           getLinearScore (Some v) mn mx = round (((v - mn) / (mx - mn)) * 100)))
   \<and> (mn \<le> mx \<longrightarrow>
        (v \<le> 0 \<longrightarrow> getLinearScore (Some v) mn mx = 0)
      \<and> (0 < v \<and> v \<ge> mx \<longrightarrow> getLinearScore (Some v) mn mx = 100)
      \<and> (0 < v \<and> v < mx \<longrightarrow> getLinearScore (Some v) mn mx = round ((v * 100) / mx))
      \<and> (\<forall>mn'. mn' \<le> mx \<longrightarrow> getLinearScore (Some v) mn' mx = getLinearScore (Some v) mn mx))"
  by (simp add: getLinearScore_def)

theorem getLinearScore_cases_witness:
  "getLinearScore (Some 0) 0 180 = 0
   \<and> getLinearScore (Some 180) 0 180 = 100
   \<and> getLinearScore (Some 90) 0 180 = 50
   \<and> getLinearScore (Some 0) 50 0 = 100
   \<and> getLinearScore (Some 50) 50 0 = 0
   \<and> getLinearScore (Some 25) 50 0 = 50
   \<and> getLinearScore (Some 10) 30 180 = 6
   \<and> getLinearScore (Some 10) 30 180 = getLinearScore (Some 10) 0 180"
  using getLinearScore_cases[of 0 180 0] getLinearScore_cases[of 0 180 180]
        getLinearScore_cases[of 0 180 90] getLinearScore_cases[of 50 0 0]
        getLinearScore_cases[of 50 0 50] getLinearScore_cases[of 50 0 25]
        getLinearScore_cases[of 30 180 10]
  by (simp add: round_def)

lemma foldl_plus_sum_list: "foldl (\<lambda>a b. a + b) (a::real) xs = a + sum_list xs"
  by (induction xs arbitrary: a) simp_all

text \<open>
  Claim C3. \<open>getAverageScore\<close> drops every negative entry and returns the rounded
  arithmetic mean of the entries that remain, and 0 when none remains; on the empty
  list and on \<open>[-1, -1]\<close> it is 0, on \<open>[80, -1, 100]\<close> it is 90.
\<close>

theorem getAverageScore_mean:
  "getAverageScore scores =
     (if [s \<leftarrow> scores. 0 \<le> s] = [] then 0
      else round (sum_list [s \<leftarrow> scores. 0 \<le> s] / real (length [s \<leftarrow> scores. 0 \<le> s])))
   \<and> getAverageScore [] = 0
   \<and> getAverageScore [- 1, - 1] = 0
   \<and> getAverageScore [80, - 1, 100] = 90"
  by (simp add: getAverageScore_def foldl_plus_sum_list Let_def)

theorem getAverageScore_mean_witness:
  "[s \<leftarrow> [80, - 1, 100 :: real]. 0 \<le> s] = [80, 100]
   \<and> getAverageScore [80, - 1, 100] = round ((80 + 100) / (2 :: real))
   \<and> getAverageScore [- 5, - 1] = 0"
  using getAverageScore_mean[of "[80, - 1, 100]"] getAverageScore_mean[of "[- 5, - 1]"]
  by simp

section \<open>Hit tests\<close>

lemma getDistance_less_iff:
  "0 < t \<Longrightarrow> (getDistance p q < t) = ((pt_x q - pt_x p)\<^sup>2 + (pt_y q - pt_y p)\<^sup>2 < t\<^sup>2)"
proof -
  assume t: "0 < t"
  have "sqrt (t\<^sup>2) = t" using t by simp
  then have "(getDistance p q < t)
      = (sqrt ((pt_x q - pt_x p)\<^sup>2 + (pt_y q - pt_y p)\<^sup>2) < sqrt (t\<^sup>2))"
    by (simp add: getDistance_def)
  then show ?thesis by (simp only: real_sqrt_less_iff)
qed

lemma hitTestConnection_mem:
  "hitTestConnection x y conns points layout tol = Some l \<Longrightarrow> \<exists>c \<in> set conns. ec_id c = l"
  by (induction conns) (auto simp add: Let_def split: option.splits if_splits)

lemma find_id_mem:
  "\<exists>c \<in> set conns. ec_id c = l \<Longrightarrow>
   \<exists>conn. find (\<lambda>c. ec_id c = l) conns = Some conn \<and> conn \<in> set conns \<and> ec_id conn = l"
  by (induction conns) auto

lemma hitTestAngle_find:
  "hitTestAngle x y angles points layout tol
     = map_option ea_id (find (labelHit x y points layout tol) angles)"
  by (induction angles) (auto simp add: labelHit_def Let_def split: option.splits)

lemma normalizeDiff_range:
  assumes "- pi < s" "s \<le> pi" "- pi < e" "e \<le> pi"
  shows "- pi < normalizeDiff (e - s) \<and> normalizeDiff (e - s) \<le> pi"
  using assms pi_gt_zero unfolding normalizeDiff_def by (auto simp add: not_less not_le)

lemma normalizeDiff_atan2_range:
  "- pi < normalizeDiff (atan2 b1 a1 - atan2 b0 a0)
   \<and> normalizeDiff (atan2 b1 a1 - atan2 b0 a0) \<le> pi"
  using atan2_bounds[of b1 a1] atan2_bounds[of b0 a0]
    normalizeDiff_range[where s = "atan2 b0 a0" and e = "atan2 b1 a1"]
  by blast

lemma cos_shift_down: "cos (d - 2 * pi) = cos d"
  using cos_periodic[of "d - 2 * pi"] by simp

lemma sin_shift_down: "sin (d - 2 * pi) = sin d"
  using sin_periodic[of "d - 2 * pi"] by simp

lemma normalizeDiff_cos: "cos (normalizeDiff d) = cos d"
  unfolding normalizeDiff_def by (simp add: cos_shift_down)

lemma normalizeDiff_sin: "sin (normalizeDiff d) = sin d"
  unfolding normalizeDiff_def by (simp add: sin_shift_down)

lemma getDistance_polar:
  "getDistance sc \<lparr>pt_x = pt_x sc + cos m * r, pt_y = pt_y sc + sin m * r\<rparr> = \<bar>r\<bar>"
proof -
  have "(cos m * r)\<^sup>2 + (sin m * r)\<^sup>2 = r\<^sup>2 * (cos m)\<^sup>2 + r\<^sup>2 * (sin m)\<^sup>2"
    by (simp add: power_mult_distrib mult.commute)
  also have "\<dots> = r\<^sup>2 * ((cos m)\<^sup>2 + (sin m)\<^sup>2)"
    by (simp only: distrib_left)
  also have "\<dots> = r\<^sup>2" by (simp only: sin_cos_squared_add2 mult_1_right)
  finally show ?thesis by (simp add: getDistance_def)
qed

lemma labelPoint_distance: "getDistance sc (labelPoint sc s1 s2) = 45"
  unfolding labelPoint_def Let_def textRadius_def
  using getDistance_polar[of sc _ 45] by simp

text \<open>
  Claim C9, as amended. \<open>hitTestAngle\<close> returns the id of the first angle, in the order of
  the list, whose three points are found and whose label point is closer to the cursor
  than the tolerance, and nothing when there is none; so every id it returns belongs to
  an angle with the cursor that close to its label, and on a single angle the id is
  returned exactly when the cursor is that close. The label point lies at distance 45
  from the projected centre, on the bearing \<open>start + diff / 2\<close>, where \<open>diff\<close> is the
  difference of the two arm bearings brought into the interval from \<open>-pi\<close> (excluded) to
  \<open>pi\<close> (included) by adding or subtracting a full turn.
\<close>

theorem hitTestAngle_first_label_hit:
  "hitTestAngle x y angles points layout tol
     = map_option ea_id (find (labelHit x y points layout tol) angles)
   \<and> (\<forall>i. hitTestAngle x y angles points layout tol = Some i \<longrightarrow>
         (\<exists>a \<in> set angles. ea_id a = i \<and> labelHit x y points layout tol a))
   \<and> hitTestAngle x y [a] points layout tol
       = (if labelHit x y points layout tol a then Some (ea_id a) else None)
   \<and> (\<forall>p1 pc p2. find (\<lambda>p. ep_id p = ea_p1 a) points = Some p1
         \<and> find (\<lambda>p. ep_id p = ea_center a) points = Some pc
         \<and> find (\<lambda>p. ep_id p = ea_p2 a) points = Some p2 \<longrightarrow>
         labelHit x y points layout tol a
           = (getDistance \<lparr>pt_x = x, pt_y = y\<rparr>
                (labelPoint (project pc layout) (project p1 layout) (project p2 layout)) < tol))
   \<and> getDistance sc (labelPoint sc s1 s2) = 45
   \<and> (let s0 = atan2 (pt_y s1 - pt_y sc) (pt_x s1 - pt_x sc);
           e0 = atan2 (pt_y s2 - pt_y sc) (pt_x s2 - pt_x sc);
           diff = normalizeDiff (e0 - s0)
       in - pi < diff \<and> diff \<le> pi
        \<and> cos diff = cos (e0 - s0) \<and> sin diff = sin (e0 - s0)
        \<and> labelPoint sc s1 s2 = \<lparr>pt_x = pt_x sc + cos (s0 + diff / 2) * 45,
                                  pt_y = pt_y sc + sin (s0 + diff / 2) * 45\<rparr>)"
proof -
  have A: "hitTestAngle x y angles points layout tol
     = map_option ea_id (find (labelHit x y points layout tol) angles)"
    by (rule hitTestAngle_find)
  have B: "\<forall>i. hitTestAngle x y angles points layout tol = Some i \<longrightarrow>
         (\<exists>a \<in> set angles. ea_id a = i \<and> labelHit x y points layout tol a)"
    unfolding A by (auto simp add: find_Some_iff)
  have C: "hitTestAngle x y [a] points layout tol
       = (if labelHit x y points layout tol a then Some (ea_id a) else None)"
    unfolding hitTestAngle_find by simp
  have D: "\<forall>p1 pc p2. find (\<lambda>p. ep_id p = ea_p1 a) points = Some p1
         \<and> find (\<lambda>p. ep_id p = ea_center a) points = Some pc
         \<and> find (\<lambda>p. ep_id p = ea_p2 a) points = Some p2 \<longrightarrow>
         labelHit x y points layout tol a
           = (getDistance \<lparr>pt_x = x, pt_y = y\<rparr>
                (labelPoint (project pc layout) (project p1 layout) (project p2 layout)) < tol)"
    by (simp add: labelHit_def)
  have E: "getDistance sc (labelPoint sc s1 s2) = 45" by (rule labelPoint_distance)
  have F: "let s0 = atan2 (pt_y s1 - pt_y sc) (pt_x s1 - pt_x sc);
           e0 = atan2 (pt_y s2 - pt_y sc) (pt_x s2 - pt_x sc);
           diff = normalizeDiff (e0 - s0)
       in - pi < diff \<and> diff \<le> pi
        \<and> cos diff = cos (e0 - s0) \<and> sin diff = sin (e0 - s0)
        \<and> labelPoint sc s1 s2 = \<lparr>pt_x = pt_x sc + cos (s0 + diff / 2) * 45,
                                  pt_y = pt_y sc + sin (s0 + diff / 2) * 45\<rparr>"
    unfolding Let_def
    using normalizeDiff_atan2_range[of "pt_y s2 - pt_y sc" "pt_x s2 - pt_x sc"
        "pt_y s1 - pt_y sc" "pt_x s1 - pt_x sc"]
    by (simp add: normalizeDiff_cos normalizeDiff_sin labelPoint_def textRadius_def Let_def)
  show ?thesis using A B C D E F by blast
qed

section \<open>The editor tools\<close>

lemma truthyId_Some: "i \<noteq> [] \<Longrightarrow> truthyId (Some i) = Some i"
  by (simp add: truthyId_def)

lemma filter_id_remove1:
  "distinct (map f xs) \<Longrightarrow> x \<in> set xs \<Longrightarrow> filter (\<lambda>c. f c \<noteq> f x) xs = remove1 x xs"
proof (induction xs)
  case Nil
  then show ?case by simp
next
  case (Cons a xs)
  show ?case
  proof (cases "a = x")
    case True
    have "f x \<notin> f ` set xs" using Cons.prems True by simp
    then have "\<forall>c \<in> set xs. f c \<noteq> f x" by (metis imageI)
    then have "filter (\<lambda>c. f c \<noteq> f x) xs = xs" by (simp add: filter_id_conv)
    then show ?thesis using True by simp
  next
    case False
    then have mem: "x \<in> set xs" using Cons.prems by simp
    have dist: "distinct (map f xs)" using Cons.prems by simp
    have "f a \<notin> f ` set xs" using Cons.prems by simp
    then have "f a \<noteq> f x" using mem by (metis imageI)
    then show ?thesis using Cons.IH[OF dist mem] False by simp
  qed
qed

lemma sharedVertex_shared:
  assumes "ec_from c1 = ec_from c2 \<or> ec_from c1 = ec_to c2
      \<or> ec_to c1 = ec_from c2 \<or> ec_to c1 = ec_to c2"
  shows "\<exists>c p1 p2. sharedVertex c1 c2 = (Some c, Some p1, Some p2)
           \<and> ((c = ec_from c1 \<and> p1 = ec_to c1) \<or> (c = ec_to c1 \<and> p1 = ec_from c1))
           \<and> ((c = ec_from c2 \<and> p2 = ec_to c2) \<or> (c = ec_to c2 \<and> p2 = ec_from c2))"
proof (cases "ec_from c1 = ec_from c2")
  case True
  then show ?thesis by (simp add: sharedVertex_def)
next
  case nff: False
  show ?thesis
  proof (cases "ec_from c1 = ec_to c2")
    case True
    then show ?thesis using nff by (simp add: sharedVertex_def)
  next
    case nft: False
    show ?thesis
    proof (cases "ec_to c1 = ec_from c2")
      case True
      then show ?thesis using nff nft by (simp add: sharedVertex_def)
    next
      case ntf: False
      then have tt: "ec_to c1 = ec_to c2" using assms nff nft by blast
      then show ?thesis using nff nft ntf by (simp add: sharedVertex_def)
    qed
  qed
qed

lemma sharedVertex_none:
  "\<not> (ec_from c1 = ec_from c2 \<or> ec_from c1 = ec_to c2
      \<or> ec_to c1 = ec_from c2 \<or> ec_to c1 = ec_to c2)
   \<Longrightarrow> sharedVertex c1 c2 = (None, None, None)"
  by (simp add: sharedVertex_def)

text \<open>
  In the theorems on \<^const>\<open>handleStart\<close> the skeleton is shown (the first argument is
  \<open>True\<close>; otherwise the handler returns at once), and a pointer-down hits an element
  when its hit test returns an id that passes the handler's \<^verbatim>\<open>if (id)\<close>, that is, a
  nonempty id.
\<close>

text \<open>
  Claim C10. Under the CONNECT tool with a pending start point \<open>s\<close>, a pointer-down that
  hits a point \<open>p\<close>: when \<open>p \<noteq> s\<close> the pending start is cleared, whether the connection
  from \<open>s\<close> to \<open>p\<close> was appended or a connection between the two (in either direction)
  suppressed it; when \<open>p = s\<close> the pending start stays \<open>s\<close> and the connections are
  unchanged. No connection that the event adds joins a point to itself.
\<close>

theorem connect_tool_pending_start:
  assumes hit: "hitTestPoint x y (ed_points (st_editorData st)) layout 45 = Some p" "p \<noteq> []"
    and pending: "st_connectingStartId st = Some s" "s \<noteq> []"
  shows "let st' = handleStart True CONNECT layout newId x y st;
             conns = ed_connections (st_editorData st);
             conns' = ed_connections (st_editorData st');
             dup = (\<exists>c \<in> set conns. (ec_from c = s \<and> ec_to c = p) \<or> (ec_from c = p \<and> ec_to c = s))
         in (p \<noteq> s \<longrightarrow> st_connectingStartId st' = None
                       \<and> conns' = (if dup then conns
                                   else conns @ [\<lparr>ec_id = newId, ec_from = s, ec_to = p\<rparr>]))
          \<and> (p = s \<longrightarrow> st_connectingStartId st' = Some s \<and> conns' = conns)
          \<and> (\<forall>c \<in> set conns'. c \<notin> set conns \<longrightarrow> ec_from c \<noteq> ec_to c)
          \<and> ed_points (st_editorData st') = ed_points (st_editorData st)
          \<and> ed_angles (st_editorData st') = ed_angles (st_editorData st)
          \<and> st_draggingPointId st' = st_draggingPointId st
          \<and> st_selectedElementIds st' = st_selectedElementIds st"
  using assms
  by (auto simp add: handleStart_def toolConnect_def truthyId_Some Let_def list_ex_iff)

text \<open>
  Claim C5, as amended. A DELETE-tool pointer-down that hits a point and hits no angle
  label removes the points with that id, every connection whose \<open>from\<close> or \<open>to\<close> is the
  id and every angle whose \<open>p1\<close>, \<open>center\<close> or \<open>p2\<close> is the id, and nothing else: the
  resulting graph has no point with the id and no connection or angle that refers to it.
\<close>

theorem delete_point_cascade:
  assumes noAngle: "truthyId (hitTestAngle x y (ed_angles (st_editorData st))
                       (ed_points (st_editorData st)) layout 35) = None"
    and hit: "hitTestPoint x y (ed_points (st_editorData st)) layout 45 = Some p" "p \<noteq> []"
  shows "let prev = st_editorData st;
             st' = handleStart True DELETE layout newId x y st;
             ed' = st_editorData st'
         in ed_points ed' = filter (\<lambda>q. ep_id q \<noteq> p) (ed_points prev)
          \<and> ed_connections ed'
              = filter (\<lambda>c. ec_from c \<noteq> p \<and> ec_to c \<noteq> p) (ed_connections prev)
          \<and> ed_angles ed'
              = filter (\<lambda>a. ea_p1 a \<noteq> p \<and> ea_center a \<noteq> p \<and> ea_p2 a \<noteq> p) (ed_angles prev)
          \<and> p \<notin> ep_id ` set (ed_points ed')
          \<and> (\<forall>c \<in> set (ed_connections ed'). ec_from c \<noteq> p \<and> ec_to c \<noteq> p)
          \<and> (\<forall>a \<in> set (ed_angles ed'). ea_p1 a \<noteq> p \<and> ea_center a \<noteq> p \<and> ea_p2 a \<noteq> p)
          \<and> st_draggingPointId st' = st_draggingPointId st
          \<and> st_connectingStartId st' = st_connectingStartId st
          \<and> st_selectedElementIds st' = st_selectedElementIds st"
  using assms
  by (auto simp add: handleStart_def toolDelete_def truthyId_Some Let_def)

text \<open>
  Claim C6. A DELETE-tool pointer-down that hits a connection, and no angle label and no
  point, removes the connections with the hit id (the hit connection alone when the ids
  are distinct) and exactly the angles whose centre is one endpoint of that connection
  while \<open>p1\<close> or \<open>p2\<close> is its other endpoint; every other angle stays, in order, and the
  points are unchanged.
\<close>

theorem delete_connection_cascade:
  assumes noAngle: "truthyId (hitTestAngle x y (ed_angles (st_editorData st))
                       (ed_points (st_editorData st)) layout 35) = None"
    and noPoint: "truthyId (hitTestPoint x y (ed_points (st_editorData st)) layout 45) = None"
    and hit: "hitTestConnection x y (ed_connections (st_editorData st))
                (ed_points (st_editorData st)) layout 30 = Some l" "l \<noteq> []"
  shows "\<exists>conn \<in> set (ed_connections (st_editorData st)).
           ec_id conn = l
         \<and> (let prev = st_editorData st;
                 st' = handleStart True DELETE layout newId x y st;
                 ed' = st_editorData st'
             in ed_connections ed' = filter (\<lambda>c. ec_id c \<noteq> l) (ed_connections prev)
              \<and> conn \<notin> set (ed_connections ed')
              \<and> (distinct (map ec_id (ed_connections prev))
                   \<longrightarrow> ed_connections ed' = remove1 conn (ed_connections prev))
              \<and> ed_angles ed' =
                  filter (\<lambda>a. \<not> ((ea_center a = ec_from conn
                                    \<and> (ea_p1 a = ec_to conn \<or> ea_p2 a = ec_to conn))
                              \<or> (ea_center a = ec_to conn
                                    \<and> (ea_p1 a = ec_from conn \<or> ea_p2 a = ec_from conn))))
                    (ed_angles prev)
              \<and> ed_points ed' = ed_points prev
              \<and> st_draggingPointId st' = st_draggingPointId st
              \<and> st_connectingStartId st' = st_connectingStartId st
              \<and> st_selectedElementIds st' = st_selectedElementIds st)"
proof -
  obtain conn where conn: "find (\<lambda>c. ec_id c = l) (ed_connections (st_editorData st)) = Some conn"
      "conn \<in> set (ed_connections (st_editorData st))" "ec_id conn = l"
    using find_id_mem[OF hitTestConnection_mem[OF hit(1)]] by blast
  have rm: "distinct (map ec_id (ed_connections (st_editorData st))) \<Longrightarrow>
        filter (\<lambda>c. ec_id c \<noteq> l) (ed_connections (st_editorData st))
          = remove1 conn (ed_connections (st_editorData st))"
    using filter_id_remove1[of ec_id _ conn] conn(2,3) by auto
  show ?thesis
    apply (rule bexI[OF _ conn(2)])
    using noAngle noPoint hit conn rm
    by (simp add: handleStart_def toolDelete_def truthyId_Some Let_def)
qed

text \<open>
  Claim C7. Under the ANGLE tool, when the toggle of the hit connection leaves exactly
  two ids in the selection, both of them ids of connections with nonempty endpoint ids:
  if one of the four comparisons of a \<open>from\<close> or \<open>to\<close> of the first with a \<open>from\<close> or \<open>to\<close>
  of the second succeeds, there is a shared endpoint \<open>c\<close>, with \<open>p1\<close> the other endpoint of
  the first connection and \<open>p2\<close> the other endpoint of the second, such that the angle
  \<open>(p1, c, p2)\<close> is appended unless an angle with centre \<open>c\<close> and arms \<open>p1\<close>, \<open>p2\<close> in
  either order exists, and the selection becomes empty; if none succeeds, the selection
  becomes the hit connection id alone and the angles are unchanged.
\<close>

theorem angle_tool_pairing:
  assumes hit: "hitTestConnection x y (ed_connections (st_editorData st))
                  (ed_points (st_editorData st)) layout 30 = Some l" "l \<noteq> []"
    and sel: "toggleSelection l (st_selectedElementIds st) = [i1, i2]"
    and c1: "find (\<lambda>c. ec_id c = i1) (ed_connections (st_editorData st)) = Some c1"
    and c2: "find (\<lambda>c. ec_id c = i2) (ed_connections (st_editorData st)) = Some c2"
    and ne: "ec_from c1 \<noteq> []" "ec_to c1 \<noteq> []" "ec_from c2 \<noteq> []" "ec_to c2 \<noteq> []"
  shows "let st' = handleStart True ANGLE layout newId x y st;
             angles = ed_angles (st_editorData st);
             angles' = ed_angles (st_editorData st');
             shared = (ec_from c1 = ec_from c2 \<or> ec_from c1 = ec_to c2
                        \<or> ec_to c1 = ec_from c2 \<or> ec_to c1 = ec_to c2)
         in (shared \<longrightarrow>
               (\<exists>c p1 p2.
                    ((c = ec_from c1 \<and> p1 = ec_to c1) \<or> (c = ec_to c1 \<and> p1 = ec_from c1))
                  \<and> ((c = ec_from c2 \<and> p2 = ec_to c2) \<or> (c = ec_to c2 \<and> p2 = ec_from c2))
                  \<and> angles' =
                      (if \<exists>a \<in> set angles. ea_center a = c
                            \<and> ((ea_p1 a = p1 \<and> ea_p2 a = p2) \<or> (ea_p1 a = p2 \<and> ea_p2 a = p1))
                       then angles
                       else angles @ [\<lparr>ea_id = newId, ea_p1 = p1, ea_center = c, ea_p2 = p2\<rparr>]))
               \<and> st_selectedElementIds st' = [])
          \<and> (\<not> shared \<longrightarrow> st_selectedElementIds st' = [l] \<and> angles' = angles)
          \<and> ed_points (st_editorData st') = ed_points (st_editorData st)
          \<and> ed_connections (st_editorData st') = ed_connections (st_editorData st)
          \<and> st_draggingPointId st' = st_draggingPointId st
          \<and> st_connectingStartId st' = st_connectingStartId st"
proof -
  let ?angles = "ed_angles (st_editorData st)"
  let ?shared = "ec_from c1 = ec_from c2 \<or> ec_from c1 = ec_to c2
                  \<or> ec_to c1 = ec_from c2 \<or> ec_to c1 = ec_to c2"
  let ?st' = "toolAngle newId (Some l) st"
  have hs: "handleStart True ANGLE layout newId x y st = ?st'"
    by (simp add: handleStart_def Let_def hit(1))
  show ?thesis
  proof (cases ?shared)
    case False
    have sv: "sharedVertex c1 c2 = (None, None, None)" using False by (rule sharedVertex_none)
    have "?st' = st\<lparr>st_selectedElementIds := [l]\<rparr>"
      using hit(2) by (simp add: toolAngle_def truthyId_def Let_def sel c1 c2 sv)
    then show ?thesis unfolding Let_def hs using False by simp
  next
    case True
    then obtain c p1 p2 where sv: "sharedVertex c1 c2 = (Some c, Some p1, Some p2)"
      and e1: "(c = ec_from c1 \<and> p1 = ec_to c1) \<or> (c = ec_to c1 \<and> p1 = ec_from c1)"
      and e2: "(c = ec_from c2 \<and> p2 = ec_to c2) \<or> (c = ec_to c2 \<and> p2 = ec_from c2)"
      using sharedVertex_shared[of c1 c2] by blast
    have n1: "c \<noteq> []" using ne e1 by auto
    have n2: "p1 \<noteq> []" using ne e1 by auto
    have n3: "p2 \<noteq> []" using ne e2 by auto
    have st: "?st' =
      (if \<not> list_ex (\<lambda>a. ea_center a = c
               \<and> ((ea_p1 a = p1 \<and> ea_p2 a = p2) \<or> (ea_p1 a = p2 \<and> ea_p2 a = p1))) ?angles
       then st\<lparr>st_editorData := (st_editorData st)\<lparr>ed_angles := ?angles
              @ [\<lparr>ea_id = newId, ea_p1 = p1, ea_center = c, ea_p2 = p2\<rparr>]\<rparr>\<rparr>
       else st)\<lparr>st_selectedElementIds := []\<rparr>"
      by (simp add: toolAngle_def truthyId_Some[OF hit(2)] Let_def sel c1 c2 sv
          truthyId_Some[OF n1] truthyId_Some[OF n2] truthyId_Some[OF n3])
    have ang: "ed_angles (st_editorData ?st') =
            (if \<exists>a \<in> set ?angles. ea_center a = c
                  \<and> ((ea_p1 a = p1 \<and> ea_p2 a = p2) \<or> (ea_p1 a = p2 \<and> ea_p2 a = p1))
             then ?angles
             else ?angles @ [\<lparr>ea_id = newId, ea_p1 = p1, ea_center = c, ea_p2 = p2\<rparr>])"
      unfolding st by (simp add: list_ex_iff)
    have ex: "\<exists>c p1 p2.
          ((c = ec_from c1 \<and> p1 = ec_to c1) \<or> (c = ec_to c1 \<and> p1 = ec_from c1))
        \<and> ((c = ec_from c2 \<and> p2 = ec_to c2) \<or> (c = ec_to c2 \<and> p2 = ec_from c2))
        \<and> ed_angles (st_editorData ?st') =
            (if \<exists>a \<in> set ?angles. ea_center a = c
                  \<and> ((ea_p1 a = p1 \<and> ea_p2 a = p2) \<or> (ea_p1 a = p2 \<and> ea_p2 a = p1))
             then ?angles
             else ?angles @ [\<lparr>ea_id = newId, ea_p1 = p1, ea_center = c, ea_p2 = p2\<rparr>])"
      apply (rule exI[of _ c], rule exI[of _ p1], rule exI[of _ p2])
      apply (intro conjI)
        apply (rule e1)
       apply (rule e2)
      apply (rule ang)
      done
    have rest: "st_selectedElementIds ?st' = []"
      "ed_points (st_editorData ?st') = ed_points (st_editorData st)"
      "ed_connections (st_editorData ?st') = ed_connections (st_editorData st)"
      "st_draggingPointId ?st' = st_draggingPointId st"
      "st_connectingStartId ?st' = st_connectingStartId st"
      unfolding st by simp_all
    show ?thesis
      unfolding Let_def hs
      apply (intro conjI impI)
             apply (rule ex)
            apply (rule rest(1))
      using True apply blast
      using True apply blast
         apply (rule rest(2))
        apply (rule rest(3))
       apply (rule rest(4))
      apply (rule rest(5))
      done
  qed
qed

section \<open>Reports with no prerequisite keypoint\<close>

lemma buildEnrichedSkeleton_other:
  "k \<noteq> ''manubrium'' \<Longrightarrow> k \<noteq> ''pubis'' \<Longrightarrow> buildEnrichedSkeleton sk k = sk k"
  by (simp add: buildEnrichedSkeleton_def Let_def split: option.splits)

lemma resolveVector_Own_None:
  assumes "JOINT_DICT j = Some (Own k1 k2)" "kps k1 = None \<or> kps k2 = None"
    "j \<notin> {''vertical'', ''-vertical'', ''horizontal'', ''-horizontal''}" "\<not> startsWithDash j"
  shows "resolveVector j kps = None"
  using assms by (auto simp add: resolveVector_def Let_def split: option.splits)

lemma resolveVector_biceps_neck:
  "kps ''leftElbow'' = None \<Longrightarrow> resolveVector ''leftBiceps'' kps = None"
  "kps ''rightElbow'' = None \<Longrightarrow> resolveVector ''rightBiceps'' kps = None"
  "kps ''nose'' = None \<Longrightarrow> resolveVector ''neck'' kps = None"
  "kps ''rightEar'' = None \<Longrightarrow> resolveVector ''rightNeck'' kps = None"
  by (rule resolveVector_Own_None, simp add: JOINT_DICT_def, simp, simp, simp add: startsWithDash_def)+

lemma computeAngle_None1: "resolveVector (ad_joint1 d) kps = None \<Longrightarrow> computeAngle kps d = None"
  by (simp add: computeAngle_def)

lemma computeAngle_None2: "resolveVector (ad_joint2 d) kps = None \<Longrightarrow> computeAngle kps d = None"
  by (simp add: computeAngle_def split: option.splits)

lemma computeAngle_shoulder_defs:
  assumes "lacksAll shoulder_mobility_keys sk"
  shows "computeAngle (buildEnrichedSkeleton sk) FRONT_LEFT = None"
    "computeAngle (buildEnrichedSkeleton sk) FRONT_RIGHT = None"
    "computeAngle (buildEnrichedSkeleton sk) LEFT_FWD = None"
    "computeAngle (buildEnrichedSkeleton sk) RIGHT_FWD = None"
    "computeAngle (buildEnrichedSkeleton sk) LEFT_BWD = None"
    "computeAngle (buildEnrichedSkeleton sk) RIGHT_BWD = None"
proof -
  have l: "buildEnrichedSkeleton sk ''leftElbow'' = None"
    and r: "buildEnrichedSkeleton sk ''rightElbow'' = None"
    using assms by (simp_all add: lacksAll_def shoulder_mobility_keys_def buildEnrichedSkeleton_other)
  note rv = resolveVector_biceps_neck(1)[where kps = "buildEnrichedSkeleton sk", OF l]
    resolveVector_biceps_neck(2)[where kps = "buildEnrichedSkeleton sk", OF r]
  show "computeAngle (buildEnrichedSkeleton sk) FRONT_LEFT = None"
    by (rule computeAngle_None2) (simp add: FRONT_LEFT_def rv)
  show "computeAngle (buildEnrichedSkeleton sk) FRONT_RIGHT = None"
    by (rule computeAngle_None1) (simp add: FRONT_RIGHT_def rv)
  show "computeAngle (buildEnrichedSkeleton sk) LEFT_FWD = None"
    by (rule computeAngle_None1) (simp add: LEFT_FWD_def rv)
  show "computeAngle (buildEnrichedSkeleton sk) RIGHT_FWD = None"
    by (rule computeAngle_None2) (simp add: RIGHT_FWD_def rv)
  show "computeAngle (buildEnrichedSkeleton sk) LEFT_BWD = None"
    by (rule computeAngle_None2) (simp add: LEFT_BWD_def rv)
  show "computeAngle (buildEnrichedSkeleton sk) RIGHT_BWD = None"
    by (rule computeAngle_None1) (simp add: RIGHT_BWD_def rv)
qed

lemma computeAngle_neck_defs:
  assumes "lacksAll neck_mobility_keys sk"
  shows "computeAngle (buildEnrichedSkeleton sk) NECK_RIGHT_SIDE = None"
    "computeAngle (buildEnrichedSkeleton sk) NECK_LEFT_SIDE = None"
    "computeAngle (buildEnrichedSkeleton sk) NECK_FRONT = None"
    "computeAngle (buildEnrichedSkeleton sk) NECK_BACK = None"
proof -
  have n: "buildEnrichedSkeleton sk ''nose'' = None"
    and e: "buildEnrichedSkeleton sk ''rightEar'' = None"
    using assms by (simp_all add: lacksAll_def neck_mobility_keys_def buildEnrichedSkeleton_other)
  note rv = resolveVector_biceps_neck(3)[where kps = "buildEnrichedSkeleton sk", OF n]
    resolveVector_biceps_neck(4)[where kps = "buildEnrichedSkeleton sk", OF e]
  show "computeAngle (buildEnrichedSkeleton sk) NECK_RIGHT_SIDE = None"
    by (rule computeAngle_None2) (simp add: NECK_RIGHT_SIDE_def rv)
  show "computeAngle (buildEnrichedSkeleton sk) NECK_LEFT_SIDE = None"
    by (rule computeAngle_None1) (simp add: NECK_LEFT_SIDE_def rv)
  show "computeAngle (buildEnrichedSkeleton sk) NECK_FRONT = None"
    by (rule computeAngle_None1) (simp add: NECK_FRONT_def rv)
  show "computeAngle (buildEnrichedSkeleton sk) NECK_BACK = None"
    by (rule computeAngle_None2) (simp add: NECK_BACK_def rv)
qed

lemma scorePose_absent:
  assumes "\<And>raw. dataMap pose = Some raw \<Longrightarrow> computeAngle (buildEnrichedSkeleton (ar_skeleton raw)) d = None"
  shows "scorePose nf dataMap pose d = (- 1, ''--'')"
  using assms by (cases "dataMap pose") (simp_all add: scorePose_def Let_def)

lemma poseBlock_absent:
  assumes "\<And>raw. dataMap pose = Some raw \<Longrightarrow> computeAngle (buildEnrichedSkeleton (ar_skeleton raw)) d = None"
  shows "fst (poseBlock nf dataMap pose d label acc) = fst acc"
  by (cases acc) (simp add: poseBlock_def scorePose_absent[OF assms])

lemma posesLackAll_D:
  "posesLackAll poses keys dataMap \<Longrightarrow> pose \<in> set poses \<Longrightarrow> dataMap pose = Some raw
   \<Longrightarrow> lacksAll keys (ar_skeleton raw)"
  by (auto simp add: posesLackAll_def list_all_iff split: option.splits)

lemma getAverageScore_nil_or_zero:
  "scores = [] \<or> scores = [0] \<Longrightarrow> getAverageScore (map real_of_int scores) = 0"
  by (auto simp add: getAverageScore_def)

lemma frontShoulderBlock_absent:
  assumes "posesLackAll shoulder_mobility_poses shoulder_mobility_keys dataMap"
  shows "fst (frontShoulderBlock nf dataMap t ([], [])) = [] \<or>
         fst (frontShoulderBlock nf dataMap t ([], [])) = [0]"
proof (cases "dataMap ''frontShoulder''")
  case None
  then show ?thesis by (simp add: frontShoulderBlock_def)
next
  case (Some raw)
  have "lacksAll shoulder_mobility_keys (ar_skeleton raw)"
    using posesLackAll_D[OF assms _ Some] by (simp add: shoulder_mobility_poses_def)
  note ca = computeAngle_shoulder_defs[OF this]
  show ?thesis using Some
    by (simp add: frontShoulderBlock_def ca getAverageScore_def Let_def)
qed

lemma shoulder_mobility_absent:
  assumes "posesLackAll shoulder_mobility_poses shoulder_mobility_keys dataMap"
  shows "\<exists>r. shoulder_mobility_analyze nf dataMap t = Some r \<and> hr_score r = 0"
proof -
  have la: "\<And>pose raw. pose \<in> set shoulder_mobility_poses \<Longrightarrow> dataMap pose = Some raw
      \<Longrightarrow> lacksAll shoulder_mobility_keys (ar_skeleton raw)"
    using posesLackAll_D[OF assms] by blast
  have p1: "\<And>acc l. fst (poseBlock nf dataMap ''leftShoulder'' LEFT_FWD l acc) = fst acc"
    by (rule poseBlock_absent, rule computeAngle_shoulder_defs, rule la)
       (simp_all add: shoulder_mobility_poses_def)
  have p2: "\<And>acc l. fst (poseBlock nf dataMap ''rightShoulder'' RIGHT_FWD l acc) = fst acc"
    by (rule poseBlock_absent, rule computeAngle_shoulder_defs, rule la)
       (simp_all add: shoulder_mobility_poses_def)
  have p3: "\<And>acc l. fst (poseBlock nf dataMap ''leftShoulderBackward'' LEFT_BWD l acc) = fst acc"
    by (rule poseBlock_absent, rule computeAngle_shoulder_defs, rule la)
       (simp_all add: shoulder_mobility_poses_def)
  have p4: "\<And>acc l. fst (poseBlock nf dataMap ''rightShoulderBackward'' RIGHT_BWD l acc) = fst acc"
    by (rule poseBlock_absent, rule computeAngle_shoulder_defs, rule la)
       (simp_all add: shoulder_mobility_poses_def)
  show ?thesis
    using getAverageScore_nil_or_zero[OF frontShoulderBlock_absent[OF assms, of nf t]]
    by (simp add: shoulder_mobility_analyze_def Let_def p1 p2 p3 p4)
qed

lemma neck_mobility_absent:
  assumes "posesLackAll neck_mobility_poses neck_mobility_keys dataMap"
  shows "\<exists>r. neck_mobility_analyze nf dataMap t = Some r \<and> hr_score r = 0"
proof -
  have la: "\<And>pose raw. pose \<in> set neck_mobility_poses \<Longrightarrow> dataMap pose = Some raw
      \<Longrightarrow> lacksAll neck_mobility_keys (ar_skeleton raw)"
    using posesLackAll_D[OF assms] by blast
  have p1: "\<And>acc l. fst (poseBlock nf dataMap ''neckRightSideBend'' NECK_RIGHT_SIDE l acc) = fst acc"
    by (rule poseBlock_absent, rule computeAngle_neck_defs, rule la)
       (simp_all add: neck_mobility_poses_def)
  have p2: "\<And>acc l. fst (poseBlock nf dataMap ''neckLeftSideBend'' NECK_LEFT_SIDE l acc) = fst acc"
    by (rule poseBlock_absent, rule computeAngle_neck_defs, rule la)
       (simp_all add: neck_mobility_poses_def)
  have p3: "\<And>acc l. fst (poseBlock nf dataMap ''neckFrontBend'' NECK_FRONT l acc) = fst acc"
    by (rule poseBlock_absent, rule computeAngle_neck_defs, rule la)
       (simp_all add: neck_mobility_poses_def)
  have p4: "\<And>acc l. fst (poseBlock nf dataMap ''neckBackBend'' NECK_BACK l acc) = fst acc"
    by (rule poseBlock_absent, rule computeAngle_neck_defs, rule la)
       (simp_all add: neck_mobility_poses_def)
  show ?thesis
    by (simp add: neck_mobility_analyze_def Let_def p1 p2 p3 p4 getAverageScore_def)
qed

lemma tiltBlock_None: "tiltBlock nf t None r mn mx key acc = acc"
  by (cases acc) (simp add: tiltBlock_def)

lemma shiftBlock_None: "shiftBlock nf t h u None n mn key acc = acc"
  by (cases acc) (simp add: shiftBlock_def)

lemma posture_analysis_absent:
  assumes "posesLackAll posture_analysis_poses posture_analysis_keys dataMap"
  shows "\<exists>r. posture_analysis_analyze nf dataMap t ph = Some r \<and> hr_score r = 0"
proof -
  have la: "\<And>pose raw. pose \<in> set posture_analysis_poses \<Longrightarrow> dataMap pose = Some raw
      \<Longrightarrow> lacksAll posture_analysis_keys (ar_skeleton raw)"
    using posesLackAll_D[OF assms] by blast
  have k: "\<And>pose raw. pose \<in> set posture_analysis_poses \<Longrightarrow> dataMap pose = Some raw
      \<Longrightarrow> buildEnrichedSkeleton (ar_skeleton raw) ''leftShoulder'' = None
        \<and> buildEnrichedSkeleton (ar_skeleton raw) ''leftHip'' = None
        \<and> buildEnrichedSkeleton (ar_skeleton raw) ''leftAnkle'' = None"
    using la by (simp add: lacksAll_def posture_analysis_keys_def buildEnrichedSkeleton_other)
  have f: "\<And>raw. dataMap ''front'' = Some raw
      \<Longrightarrow> buildEnrichedSkeleton (ar_skeleton raw) ''leftShoulder'' = None
        \<and> buildEnrichedSkeleton (ar_skeleton raw) ''leftHip'' = None"
    using k[of "''front''"] by (simp add: posture_analysis_poses_def)
  have s: "\<And>raw. dataMap ''side'' = Some raw
      \<Longrightarrow> buildEnrichedSkeleton (ar_skeleton raw) ''leftAnkle'' = None"
    using k[of "''side''"] by (simp add: posture_analysis_poses_def)
  show ?thesis
    by (cases "dataMap ''front''"; cases "dataMap ''side''")
       (simp_all add: posture_analysis_analyze_def Let_def f s
          tiltBlock_None shiftBlock_None getAverageScore_def)
qed

lemma shoulder_level_None_iff:
  "shoulder_level_analyze data t = None
     \<longleftrightarrow> data ''leftShoulder'' = None \<or> data ''rightShoulder'' = None"
  by (simp add: shoulder_level_analyze_def Let_def split: option.splits prod.splits)

lemma forward_head_None_iff:
  "forward_head_analyze data t = None
     \<longleftrightarrow> (data ''leftEar'' = None \<and> data ''rightEar'' = None)
         \<or> (data ''leftShoulder'' = None \<and> data ''rightShoulder'' = None)"
  by (simp add: forward_head_analyze_def orElse_def Let_def split: option.splits prod.splits)

lemma leg_alignment_None_iff:
  "leg_alignment_analyze data t = None
     \<longleftrightarrow> data ''leftHip'' = None \<or> data ''leftKnee'' = None \<or> data ''leftAnkle'' = None
         \<or> data ''rightHip'' = None \<or> data ''rightKnee'' = None \<or> data ''rightAnkle'' = None"
  by (simp add: leg_alignment_analyze_def Let_def split: option.splits prod.splits)

lemma wrist_mobility_report:
  "\<exists>r. wrist_mobility_analyze dataMap t = Some r \<and> hr_score r = - 1"
  by (simp add: wrist_mobility_analyze_def)

lemma multi_pose_Some:
  "\<exists>r. shoulder_mobility_analyze nf dataMap t = Some r"
  "\<exists>r. neck_mobility_analyze nf dataMap t = Some r"
  "\<exists>r. posture_analysis_analyze nf dataMap t ph = Some r"
  by (simp_all add: shoulder_mobility_analyze_def neck_mobility_analyze_def
      posture_analysis_analyze_def Let_def)

text \<open>
  Claim C4, as amended. The single-image tests \<open>shoulder_level\<close>, \<open>forward_head\<close> and
  \<open>leg_alignment\<close> return no report when the skeleton has none of their prerequisite
  keypoints. The multi-pose tests \<open>shoulder_mobility\<close>, \<open>neck_mobility\<close> and
  \<open>posture_analysis\<close> always return a report; when no supplied pose has any of the
  prerequisite keypoints its score is 0. \<open>wrist_mobility\<close> always returns a report with
  the score \<open>-1\<close>.
\<close>

theorem analyze_absent_or_zero:
  "(lacksAll shoulder_level_keys data \<longrightarrow> shoulder_level_analyze data t = None)
   \<and> (lacksAll forward_head_keys data \<longrightarrow> forward_head_analyze data t = None)
   \<and> (lacksAll leg_alignment_keys data \<longrightarrow> leg_alignment_analyze data t = None)
   \<and> (\<exists>r. shoulder_mobility_analyze nf dataMap t = Some r
         \<and> (posesLackAll shoulder_mobility_poses shoulder_mobility_keys dataMap \<longrightarrow> hr_score r = 0))
   \<and> (\<exists>r. neck_mobility_analyze nf dataMap t = Some r
         \<and> (posesLackAll neck_mobility_poses neck_mobility_keys dataMap \<longrightarrow> hr_score r = 0))
   \<and> (\<exists>r. posture_analysis_analyze nf dataMap t ph = Some r
         \<and> (posesLackAll posture_analysis_poses posture_analysis_keys dataMap \<longrightarrow> hr_score r = 0))
   \<and> (\<exists>r. wrist_mobility_analyze dataMap t = Some r \<and> hr_score r = - 1)"
proof -
  have A: "lacksAll shoulder_level_keys data \<longrightarrow> shoulder_level_analyze data t = None"
    by (simp add: shoulder_level_None_iff lacksAll_def shoulder_level_keys_def)
  have B: "lacksAll forward_head_keys data \<longrightarrow> forward_head_analyze data t = None"
    by (simp add: forward_head_None_iff lacksAll_def forward_head_keys_def)
  have C: "lacksAll leg_alignment_keys data \<longrightarrow> leg_alignment_analyze data t = None"
    by (simp add: leg_alignment_None_iff lacksAll_def leg_alignment_keys_def)
  have D: "\<exists>r. shoulder_mobility_analyze nf dataMap t = Some r
         \<and> (posesLackAll shoulder_mobility_poses shoulder_mobility_keys dataMap \<longrightarrow> hr_score r = 0)"
    using multi_pose_Some(1)[of nf dataMap t] shoulder_mobility_absent[of dataMap nf t] by auto
  have E: "\<exists>r. neck_mobility_analyze nf dataMap t = Some r
         \<and> (posesLackAll neck_mobility_poses neck_mobility_keys dataMap \<longrightarrow> hr_score r = 0)"
    using multi_pose_Some(2)[of nf dataMap t] neck_mobility_absent[of dataMap nf t] by auto
  have F: "\<exists>r. posture_analysis_analyze nf dataMap t ph = Some r
         \<and> (posesLackAll posture_analysis_poses posture_analysis_keys dataMap \<longrightarrow> hr_score r = 0)"
    using multi_pose_Some(3)[of nf dataMap t ph] posture_analysis_absent[of dataMap nf t ph] by auto
  show ?thesis
    by (rule conjI[OF A conjI[OF B conjI[OF C conjI[OF D conjI[OF E
          conjI[OF F wrist_mobility_report]]]]]])
qed

lemma ex_poses_lack:
  "posesLackAll shoulder_mobility_poses shoulder_mobility_keys exPoses"
  "posesLackAll neck_mobility_poses neck_mobility_keys exPoses"
  "posesLackAll posture_analysis_poses posture_analysis_keys exPoses"
  by (simp_all add: posesLackAll_def lacksAll_def exPoses_def shoulder_mobility_poses_def
      shoulder_mobility_keys_def neck_mobility_poses_def neck_mobility_keys_def
      posture_analysis_poses_def posture_analysis_keys_def)

text \<open>
  With all five poses supplied and no keypoint in any of them, \<open>shoulder_mobility\<close>
  returns a report with score 0 and the title of a restricted shoulder.
\<close>

theorem shoulder_mobility_report_counterexample:
  "posesLackAll shoulder_mobility_poses shoulder_mobility_keys exPoses
   \<and> shoulder_mobility_analyze exNf exPoses exT \<noteq> None
   \<and> map_option hr_score (shoulder_mobility_analyze exNf exPoses exT) = Some 0
   \<and> map_option hr_title (shoulder_mobility_analyze exNf exPoses exT)
       = Some ''diag.shoulder.restricted''"
proof -
  obtain r where r: "shoulder_mobility_analyze exNf exPoses exT = Some r" "hr_score r = 0"
    using shoulder_mobility_absent[OF ex_poses_lack(1), of exNf exT] by blast
  have "hr_title r = ''diag.shoulder.restricted''"
    using r by (auto simp add: shoulder_mobility_analyze_def Let_def exT_def)
  then show ?thesis using r ex_poses_lack(1) by simp
qed

theorem analyze_absent_or_zero_witness:
  "lacksAll shoulder_level_keys Map.empty
   \<and> shoulder_level_analyze Map.empty exT = None
   \<and> lacksAll forward_head_keys Map.empty
   \<and> forward_head_analyze Map.empty exT = None
   \<and> lacksAll leg_alignment_keys Map.empty
   \<and> leg_alignment_analyze Map.empty exT = None
   \<and> posesLackAll shoulder_mobility_poses shoulder_mobility_keys exPoses
   \<and> map_option hr_score (shoulder_mobility_analyze exNf exPoses exT) = Some 0
   \<and> posesLackAll neck_mobility_poses neck_mobility_keys exPoses
   \<and> map_option hr_score (neck_mobility_analyze exNf exPoses exT) = Some 0
   \<and> posesLackAll posture_analysis_poses posture_analysis_keys exPoses
   \<and> map_option hr_score (posture_analysis_analyze exNf exPoses exT None) = Some 0"
proof -
  have l: "lacksAll shoulder_level_keys Map.empty" "lacksAll forward_head_keys Map.empty"
    "lacksAll leg_alignment_keys Map.empty"
    by (simp_all add: lacksAll_def shoulder_level_keys_def forward_head_keys_def
        leg_alignment_keys_def)
  note T = analyze_absent_or_zero[of Map.empty exT exNf exPoses None]
  show ?thesis using T l ex_poses_lack by auto
qed

section \<open>The tools on the concrete graph\<close>

text \<open>
  The hit tests evaluated on the cross-shaped graph. The label of \<open>g1\<close> is at
  \<open>(200, 155)\<close>, 45 pixels above \<open>B\<close>; the label of \<open>g2\<close> is at \<open>(245, 200)\<close>, 45
  pixels to its right.
\<close>

lemma ex_project:
  "project exA exLayout = \<lparr>pt_x = 0, pt_y = 200\<rparr>"
  "project exB exLayout = \<lparr>pt_x = 200, pt_y = 200\<rparr>"
  "project exC exLayout = \<lparr>pt_x = 400, pt_y = 200\<rparr>"
  "project exD exLayout = \<lparr>pt_x = 200, pt_y = 0\<rparr>"
  "project exE exLayout = \<lparr>pt_x = 200, pt_y = 400\<rparr>"
  by (simp_all add: project_def exLayout_def exA_def exB_def exC_def exD_def exE_def)

lemma ex_ids:
  "ep_id exA = ''A''" "ep_id exB = ''B''" "ep_id exC = ''C''" "ep_id exD = ''D''"
  "ep_id exE = ''E''"
  by (simp_all add: exA_def exB_def exC_def exD_def exE_def)

lemma ex_find:
  "find (\<lambda>p. ep_id p = ''A'') exPoints = Some exA"
  "find (\<lambda>p. ep_id p = ''B'') exPoints = Some exB"
  "find (\<lambda>p. ep_id p = ''C'') exPoints = Some exC"
  "find (\<lambda>p. ep_id p = ''D'') exPoints = Some exD"
  "find (\<lambda>p. ep_id p = ''E'') exPoints = Some exE"
  by (simp_all add: exPoints_def ex_ids)

lemma ex_conn_fields:
  "ec_id exC1 = ''c1''" "ec_from exC1 = ''A''" "ec_to exC1 = ''B''"
  "ec_id exC2 = ''c2''" "ec_from exC2 = ''B''" "ec_to exC2 = ''C''"
  "ec_id exC3 = ''c3''" "ec_from exC3 = ''D''" "ec_to exC3 = ''B''"
  "ec_id exC4 = ''c4''" "ec_from exC4 = ''B''" "ec_to exC4 = ''E''"
  "ec_id exC5 = ''c5''" "ec_from exC5 = ''C''" "ec_to exC5 = ''E''"
  by (simp_all add: exC1_def exC2_def exC3_def exC4_def exC5_def)

lemma ex_angle_fields:
  "ea_id exG1 = ''g1''" "ea_p1 exG1 = ''A''" "ea_center exG1 = ''B''" "ea_p2 exG1 = ''C''"
  "ea_id exG2 = ''g2''" "ea_p1 exG2 = ''D''" "ea_center exG2 = ''B''" "ea_p2 exG2 = ''E''"
  by (simp_all add: exG1_def exG2_def)

lemma ex_label_g1:
  "labelPoint \<lparr>pt_x = 200, pt_y = 200\<rparr> \<lparr>pt_x = 0, pt_y = 200\<rparr> \<lparr>pt_x = 400, pt_y = 200\<rparr>
     = \<lparr>pt_x = 200, pt_y = 155\<rparr>"
  by (simp add: labelPoint_def atan2_def normalizeDiff_def textRadius_def Let_def
      cos_3pi2 sin_3pi2 pi_not_le0)

lemma ex_label_g2:
  "labelPoint \<lparr>pt_x = 200, pt_y = 200\<rparr> \<lparr>pt_x = 200, pt_y = 0\<rparr> \<lparr>pt_x = 200, pt_y = 400\<rparr>
     = \<lparr>pt_x = 245, pt_y = 200\<rparr>"
  by (simp add: labelPoint_def atan2_def normalizeDiff_def textRadius_def Let_def
      cos_3pi2 sin_3pi2 pi_not_le0)

lemma ex_state_fields:
  "ed_points (st_editorData (exState start sel)) = exPoints"
  "ed_connections (st_editorData (exState start sel)) = exConns"
  "ed_angles (st_editorData (exState start sel)) = exAngles"
  "st_connectingStartId (exState start sel) = start"
  "st_selectedElementIds (exState start sel) = sel"
  "st_draggingPointId (exState start sel) = None"
  by (simp_all add: exState_def exData_def)

lemmas ex_pt = exPoints_def ex_project ex_ids getDistance_less_iff power2_eq_square
lemmas ex_ang = exAngles_def ex_angle_fields ex_find ex_project ex_label_g1 ex_label_g2
  getDistance_less_iff power2_eq_square
lemmas ex_con = exConns_def ex_conn_fields ex_find ex_project getDistanceToSegment_def
  distSq_def getDistance_less_iff power2_eq_square Let_def

lemma ex_hitPoint_above_B: "hitTestPoint 200 170 exPoints exLayout 45 = Some ''B''"
  by (simp add: ex_pt)

lemma ex_hitAngle_above_B: "hitTestAngle 200 170 exAngles exPoints exLayout 35 = Some ''g1''"
  by (simp add: ex_ang)

lemma ex_hitPoint_at_A: "hitTestPoint 0 200 exPoints exLayout 45 = Some ''A''"
  by (simp add: ex_pt)

lemma ex_hitAngle_at_A: "hitTestAngle 0 200 exAngles exPoints exLayout 35 = None"
  by (simp add: ex_ang)

lemma ex_hitPoint_on_c1: "hitTestPoint 100 200 exPoints exLayout 45 = None"
  by (simp add: ex_pt)

lemma ex_hitAngle_on_c1: "hitTestAngle 100 200 exAngles exPoints exLayout 35 = None"
  by (simp add: ex_ang)

lemma ex_hitConnection_on_c1: "hitTestConnection 100 200 exConns exPoints exLayout 30 = Some ''c1''"
  by (simp add: ex_con)

lemma ex_hitConnection_on_c4: "hitTestConnection 200 300 exConns exPoints exLayout 30 = Some ''c4''"
  by (simp add: ex_con)

lemma ex_hitConnection_on_c5: "hitTestConnection 300 300 exConns exPoints exLayout 30 = Some ''c5''"
  by (simp add: ex_con)

lemma ex_hitPoint_at_C: "hitTestPoint 400 200 exPoints exLayout 45 = Some ''C''"
  by (simp add: ex_pt)

lemma ex_hitPoint_at_B: "hitTestPoint 200 200 exPoints exLayout 45 = Some ''B''"
  by (simp add: ex_pt)

lemma ex_hitAngle_between_labels: "hitTestAngle (445 / 2) (355 / 2) exAngles exPoints exLayout 35 = Some ''g1''"
  by (simp add: ex_ang)

lemma ex_delete_near_B:
  "st_editorData (handleStart True DELETE exLayout ''n1'' 200 170 (exState None []))
     = exData\<lparr>ed_angles := [exG2]\<rparr>"
proof -
  have "handleStart True DELETE exLayout ''n1'' 200 170 (exState None [])
      = toolDelete (Some ''B'') (hitTestConnection 200 170 exConns exPoints exLayout 30)
          (Some ''g1'') (exState None [])"
    by (simp add: handleStart_def Let_def ex_state_fields ex_hitPoint_above_B ex_hitAngle_above_B)
  also have "\<dots> = (exState None [])\<lparr>st_editorData :=
       exData\<lparr>ed_angles := filter (\<lambda>a. ea_id a \<noteq> ''g1'') exAngles\<rparr>\<rparr>"
    by (simp add: toolDelete_def truthyId_def Let_def exState_def exData_def)
  finally show ?thesis by (simp add: exAngles_def ex_angle_fields)
qed

text \<open>
  A pointer-down 30 pixels above \<open>B\<close> hits the point \<open>B\<close> and also the label of the
  angle \<open>g1\<close>, 15 pixels away: the DELETE tool removes the angle and keeps the point.
\<close>

theorem delete_point_angle_priority_counterexample:
  "hitTestPoint 200 170 (ed_points (st_editorData (exState None []))) exLayout 45 = Some ''B''
   \<and> exB \<in> set (ed_points (st_editorData
                      (handleStart True DELETE exLayout ''n1'' 200 170 (exState None []))))
   \<and> ed_connections (st_editorData
        (handleStart True DELETE exLayout ''n1'' 200 170 (exState None []))) = exConns
   \<and> ed_angles (st_editorData
        (handleStart True DELETE exLayout ''n1'' 200 170 (exState None []))) = [exG2]"
proof -
  have a: "hitTestPoint 200 170 (ed_points (st_editorData (exState None []))) exLayout 45 = Some ''B''"
    by (simp add: ex_state_fields ex_hitPoint_above_B)
  have b: "exB \<in> set (ed_points (exData\<lparr>ed_angles := [exG2]\<rparr>))"
    by (simp add: exData_def exPoints_def)
  have c: "ed_connections (exData\<lparr>ed_angles := [exG2]\<rparr>) = exConns"
    by (simp add: exData_def)
  have d: "ed_angles (exData\<lparr>ed_angles := [exG2]\<rparr>) = [exG2]"
    by simp
  show ?thesis unfolding ex_delete_near_B by (rule conjI[OF a conjI[OF b conjI[OF c d]]])
qed

theorem delete_point_cascade_witness:
  "truthyId (hitTestAngle 0 200 (ed_angles (st_editorData (exState None [])))
      (ed_points (st_editorData (exState None []))) exLayout 35) = None
   \<and> hitTestPoint 0 200 (ed_points (st_editorData (exState None []))) exLayout 45 = Some ''A''
   \<and> ed_points (st_editorData (handleStart True DELETE exLayout ''n1'' 0 200 (exState None [])))
       = [exB, exC, exD, exE]
   \<and> ed_connections (st_editorData (handleStart True DELETE exLayout ''n1'' 0 200 (exState None [])))
       = [exC2, exC3, exC4, exC5]
   \<and> ed_angles (st_editorData (handleStart True DELETE exLayout ''n1'' 0 200 (exState None [])))
       = [exG2]"
proof -
  have h1: "truthyId (hitTestAngle 0 200 (ed_angles (st_editorData (exState None [])))
      (ed_points (st_editorData (exState None []))) exLayout 35) = None"
    by (simp add: ex_state_fields ex_hitAngle_at_A truthyId_def)
  have h2: "hitTestPoint 0 200 (ed_points (st_editorData (exState None []))) exLayout 45 = Some ''A''"
    by (simp add: ex_state_fields ex_hitPoint_at_A)
  have h3: "''A'' \<noteq> []" by simp
  have prev: "st_editorData (exState None []) = exData" by (simp add: exState_def)
  have concl: "ed_points (st_editorData (handleStart True DELETE exLayout ''n1'' 0 200 (exState None [])))
       = [exB, exC, exD, exE]
   \<and> ed_connections (st_editorData (handleStart True DELETE exLayout ''n1'' 0 200 (exState None [])))
       = [exC2, exC3, exC4, exC5]
   \<and> ed_angles (st_editorData (handleStart True DELETE exLayout ''n1'' 0 200 (exState None [])))
       = [exG2]"
    using delete_point_cascade[OF h1 h2 h3, of "''n1''"]
    unfolding Let_def prev
    by (simp add: exData_def exPoints_def exConns_def exAngles_def ex_ids
        ex_conn_fields ex_angle_fields)
  show ?thesis by (rule conjI[OF h1 conjI[OF h2 concl]])
qed

theorem delete_connection_cascade_witness:
  "truthyId (hitTestAngle 100 200 (ed_angles (st_editorData (exState None [])))
      (ed_points (st_editorData (exState None []))) exLayout 35) = None
   \<and> truthyId (hitTestPoint 100 200 (ed_points (st_editorData (exState None []))) exLayout 45) = None
   \<and> hitTestConnection 100 200 (ed_connections (st_editorData (exState None [])))
        (ed_points (st_editorData (exState None []))) exLayout 30 = Some ''c1''
   \<and> ed_connections (st_editorData (handleStart True DELETE exLayout ''n1'' 100 200 (exState None [])))
       = [exC2, exC3, exC4, exC5]
   \<and> ed_angles (st_editorData (handleStart True DELETE exLayout ''n1'' 100 200 (exState None [])))
       = [exG2]
   \<and> ed_points (st_editorData (handleStart True DELETE exLayout ''n1'' 100 200 (exState None [])))
       = exPoints"
proof -
  have h1: "truthyId (hitTestAngle 100 200 (ed_angles (st_editorData (exState None [])))
      (ed_points (st_editorData (exState None []))) exLayout 35) = None"
    by (simp add: ex_state_fields ex_hitAngle_on_c1 truthyId_def)
  have h2: "truthyId (hitTestPoint 100 200 (ed_points (st_editorData (exState None []))) exLayout 45) = None"
    by (simp add: ex_state_fields ex_hitPoint_on_c1 truthyId_def)
  have h3: "hitTestConnection 100 200 (ed_connections (st_editorData (exState None [])))
        (ed_points (st_editorData (exState None []))) exLayout 30 = Some ''c1''"
    by (simp add: ex_state_fields ex_hitConnection_on_c1)
  have h4: "''c1'' \<noteq> []" by simp
  have prev: "st_editorData (exState None []) = exData" by (simp add: exState_def)
  have concl: "ed_connections (st_editorData (handleStart True DELETE exLayout ''n1'' 100 200 (exState None [])))
       = [exC2, exC3, exC4, exC5]
   \<and> ed_angles (st_editorData (handleStart True DELETE exLayout ''n1'' 100 200 (exState None [])))
       = [exG2]
   \<and> ed_points (st_editorData (handleStart True DELETE exLayout ''n1'' 100 200 (exState None [])))
       = exPoints"
    using delete_connection_cascade[OF h1 h2 h3 h4, of "''n1''"]
    unfolding Let_def prev
    by (auto simp add: exData_def exConns_def exAngles_def ex_conn_fields ex_angle_fields)
  show ?thesis by (rule conjI[OF h1 conjI[OF h2 conjI[OF h3 concl]]])
qed

lemma ex_find_conn:
  "find (\<lambda>c. ec_id c = ''c1'') exConns = Some exC1"
  "find (\<lambda>c. ec_id c = ''c2'') exConns = Some exC2"
  "find (\<lambda>c. ec_id c = ''c4'') exConns = Some exC4"
  "find (\<lambda>c. ec_id c = ''c5'') exConns = Some exC5"
  by (simp_all add: exConns_def ex_conn_fields)

theorem angle_tool_pairing_witness:
  "hitTestConnection 200 300 (ed_connections (st_editorData (exState None [''c2''])))
      (ed_points (st_editorData (exState None [''c2'']))) exLayout 30 = Some ''c4''
   \<and> toggleSelection ''c4'' (st_selectedElementIds (exState None [''c2''])) = [''c2'', ''c4'']
   \<and> ed_angles (st_editorData (handleStart True ANGLE exLayout ''n1'' 200 300 (exState None [''c2''])))
       = exAngles @ [\<lparr>ea_id = ''n1'', ea_p1 = ''C'', ea_center = ''B'', ea_p2 = ''E''\<rparr>]
   \<and> st_selectedElementIds (handleStart True ANGLE exLayout ''n1'' 200 300 (exState None [''c2''])) = []
   \<and> hitTestConnection 300 300 (ed_connections (st_editorData (exState None [''c1''])))
      (ed_points (st_editorData (exState None [''c1'']))) exLayout 30 = Some ''c5''
   \<and> st_selectedElementIds (handleStart True ANGLE exLayout ''n1'' 300 300 (exState None [''c1'']))
       = [''c5'']
   \<and> ed_angles (st_editorData (handleStart True ANGLE exLayout ''n1'' 300 300 (exState None [''c1''])))
       = exAngles"
proof -
  have h1: "hitTestConnection 200 300 (ed_connections (st_editorData (exState None [''c2''])))
      (ed_points (st_editorData (exState None [''c2'']))) exLayout 30 = Some ''c4''"
    by (simp add: ex_state_fields ex_hitConnection_on_c4)
  have h2: "''c4'' \<noteq> []" by simp
  have h3: "toggleSelection ''c4'' (st_selectedElementIds (exState None [''c2''])) = [''c2'', ''c4'']"
    by (simp add: ex_state_fields toggleSelection_def)
  have h4: "find (\<lambda>c. ec_id c = ''c2'') (ed_connections (st_editorData (exState None [''c2''])))
      = Some exC2"
    by (simp add: ex_state_fields ex_find_conn)
  have h5: "find (\<lambda>c. ec_id c = ''c4'') (ed_connections (st_editorData (exState None [''c2''])))
      = Some exC4"
    by (simp add: ex_state_fields ex_find_conn)
  have n: "ec_from exC2 \<noteq> []" "ec_to exC2 \<noteq> []" "ec_from exC4 \<noteq> []" "ec_to exC4 \<noteq> []"
    by (simp_all add: ex_conn_fields)
  have angles: "ed_angles (st_editorData (exState None [''c2''])) = [exG1, exG2]"
    by (simp add: ex_state_fields exAngles_def)
  have A: "ed_angles (st_editorData (handleStart True ANGLE exLayout ''n1'' 200 300 (exState None [''c2''])))
       = exAngles @ [\<lparr>ea_id = ''n1'', ea_p1 = ''C'', ea_center = ''B'', ea_p2 = ''E''\<rparr>]
   \<and> st_selectedElementIds (handleStart True ANGLE exLayout ''n1'' 200 300 (exState None [''c2''])) = []"
    using angle_tool_pairing[OF h1 h2 h3 h4 h5 n, of "''n1''"]
    unfolding Let_def angles
    by (auto simp add: ex_conn_fields ex_angle_fields exAngles_def)
  have g1: "hitTestConnection 300 300 (ed_connections (st_editorData (exState None [''c1''])))
      (ed_points (st_editorData (exState None [''c1'']))) exLayout 30 = Some ''c5''"
    by (simp add: ex_state_fields ex_hitConnection_on_c5)
  have g2: "''c5'' \<noteq> []" by simp
  have g3: "toggleSelection ''c5'' (st_selectedElementIds (exState None [''c1''])) = [''c1'', ''c5'']"
    by (simp add: ex_state_fields toggleSelection_def)
  have g4: "find (\<lambda>c. ec_id c = ''c1'') (ed_connections (st_editorData (exState None [''c1''])))
      = Some exC1"
    by (simp add: ex_state_fields ex_find_conn)
  have g5: "find (\<lambda>c. ec_id c = ''c5'') (ed_connections (st_editorData (exState None [''c1''])))
      = Some exC5"
    by (simp add: ex_state_fields ex_find_conn)
  have m: "ec_from exC1 \<noteq> []" "ec_to exC1 \<noteq> []" "ec_from exC5 \<noteq> []" "ec_to exC5 \<noteq> []"
    by (simp_all add: ex_conn_fields)
  have angles1: "ed_angles (st_editorData (exState None [''c1''])) = exAngles"
    by (simp add: ex_state_fields)
  have B: "st_selectedElementIds (handleStart True ANGLE exLayout ''n1'' 300 300 (exState None [''c1'']))
       = [''c5'']
   \<and> ed_angles (st_editorData (handleStart True ANGLE exLayout ''n1'' 300 300 (exState None [''c1''])))
       = exAngles"
    using angle_tool_pairing[OF g1 g2 g3 g4 g5 m, of "''n1''"]
    unfolding Let_def angles1
    by (simp add: ex_conn_fields)
  show ?thesis
    by (rule conjI[OF h1 conjI[OF h3 conjI[OF conjunct1[OF A] conjI[OF conjunct2[OF A]
          conjI[OF g1 B]]]]])
qed

theorem connect_tool_pending_start_witness:
  "hitTestPoint 400 200 (ed_points (st_editorData (exState (Some ''A'') []))) exLayout 45 = Some ''C''
   \<and> st_connectingStartId (handleStart True CONNECT exLayout ''n1'' 400 200 (exState (Some ''A'') []))
       = None
   \<and> ed_connections (st_editorData
        (handleStart True CONNECT exLayout ''n1'' 400 200 (exState (Some ''A'') [])))
       = exConns @ [\<lparr>ec_id = ''n1'', ec_from = ''A'', ec_to = ''C''\<rparr>]
   \<and> hitTestPoint 200 200 (ed_points (st_editorData (exState (Some ''A'') []))) exLayout 45 = Some ''B''
   \<and> st_connectingStartId (handleStart True CONNECT exLayout ''n1'' 200 200 (exState (Some ''A'') []))
       = None
   \<and> ed_connections (st_editorData
        (handleStart True CONNECT exLayout ''n1'' 200 200 (exState (Some ''A'') [])))
       = exConns
   \<and> hitTestPoint 0 200 (ed_points (st_editorData (exState (Some ''A'') []))) exLayout 45 = Some ''A''
   \<and> st_connectingStartId (handleStart True CONNECT exLayout ''n1'' 0 200 (exState (Some ''A'') []))
       = Some ''A''
   \<and> ed_connections (st_editorData
        (handleStart True CONNECT exLayout ''n1'' 0 200 (exState (Some ''A'') [])))
       = exConns"
proof -
  have s: "st_connectingStartId (exState (Some ''A'') []) = Some ''A''"
    by (simp add: ex_state_fields)
  have ne: "''A'' \<noteq> []" "''B'' \<noteq> []" "''C'' \<noteq> []" by simp_all
  have conns: "ed_connections (st_editorData (exState (Some ''A'') []))
      = [exC1, exC2, exC3, exC4, exC5]"
    by (simp add: ex_state_fields exConns_def)
  have h1: "hitTestPoint 400 200 (ed_points (st_editorData (exState (Some ''A'') []))) exLayout 45
      = Some ''C''"
    by (simp add: ex_state_fields ex_hitPoint_at_C)
  have A: "st_connectingStartId (handleStart True CONNECT exLayout ''n1'' 400 200 (exState (Some ''A'') []))
       = None
   \<and> ed_connections (st_editorData
        (handleStart True CONNECT exLayout ''n1'' 400 200 (exState (Some ''A'') [])))
       = exConns @ [\<lparr>ec_id = ''n1'', ec_from = ''A'', ec_to = ''C''\<rparr>]"
    using connect_tool_pending_start[OF h1 ne(3) s ne(1), of "''n1''"]
    unfolding Let_def conns
    by (simp add: ex_conn_fields exConns_def)
  have h2: "hitTestPoint 200 200 (ed_points (st_editorData (exState (Some ''A'') []))) exLayout 45
      = Some ''B''"
    by (simp add: ex_state_fields ex_hitPoint_at_B)
  have B: "st_connectingStartId (handleStart True CONNECT exLayout ''n1'' 200 200 (exState (Some ''A'') []))
       = None
   \<and> ed_connections (st_editorData
        (handleStart True CONNECT exLayout ''n1'' 200 200 (exState (Some ''A'') [])))
       = exConns"
    using connect_tool_pending_start[OF h2 ne(2) s ne(1), of "''n1''"]
    unfolding Let_def conns
    by (simp add: ex_conn_fields exConns_def)
  have h3: "hitTestPoint 0 200 (ed_points (st_editorData (exState (Some ''A'') []))) exLayout 45
      = Some ''A''"
    by (simp add: ex_state_fields ex_hitPoint_at_A)
  have C: "st_connectingStartId (handleStart True CONNECT exLayout ''n1'' 0 200 (exState (Some ''A'') []))
       = Some ''A''
   \<and> ed_connections (st_editorData
        (handleStart True CONNECT exLayout ''n1'' 0 200 (exState (Some ''A'') [])))
       = exConns"
    using connect_tool_pending_start[OF h3 ne(1) s ne(1), of "''n1''"]
    unfolding Let_def conns
    by (simp add: ex_conn_fields exConns_def)
  show ?thesis
    by (rule conjI[OF h1 conjI[OF conjunct1[OF A] conjI[OF conjunct2[OF A]
          conjI[OF h2 conjI[OF conjunct1[OF B] conjI[OF conjunct2[OF B]
          conjI[OF h3 C]]]]]]])
qed

text \<open>
  The labels of \<open>g1\<close> and \<open>g2\<close> are both within 35 pixels of the cursor halfway between
  them; the points of \<open>g2\<close> exist, and still the id returned is that of \<open>g1\<close>, which
  comes first in the list.
\<close>

theorem hitTestAngle_shadowed_counterexample:
  "find (\<lambda>p. ep_id p = ea_p1 exG2) exPoints = Some exD
   \<and> find (\<lambda>p. ep_id p = ea_center exG2) exPoints = Some exB
   \<and> find (\<lambda>p. ep_id p = ea_p2 exG2) exPoints = Some exE
   \<and> getDistance \<lparr>pt_x = 445 / 2, pt_y = 355 / 2\<rparr>
        (labelPoint (project exB exLayout) (project exD exLayout) (project exE exLayout)) < 35
   \<and> hitTestAngle (445 / 2) (355 / 2) exAngles exPoints exLayout 35 \<noteq> Some (ea_id exG2)"
proof -
  have a: "find (\<lambda>p. ep_id p = ea_p1 exG2) exPoints = Some exD"
    by (simp add: ex_angle_fields ex_find)
  have b: "find (\<lambda>p. ep_id p = ea_center exG2) exPoints = Some exB"
    by (simp add: ex_angle_fields ex_find)
  have c: "find (\<lambda>p. ep_id p = ea_p2 exG2) exPoints = Some exE"
    by (simp add: ex_angle_fields ex_find)
  have d: "getDistance \<lparr>pt_x = 445 / 2, pt_y = 355 / 2\<rparr>
        (labelPoint (project exB exLayout) (project exD exLayout) (project exE exLayout)) < 35"
    by (simp add: ex_project ex_label_g2 getDistance_less_iff power2_eq_square)
  have e: "hitTestAngle (445 / 2) (355 / 2) exAngles exPoints exLayout 35 \<noteq> Some (ea_id exG2)"
    by (simp add: ex_hitAngle_between_labels ex_angle_fields)
  show ?thesis by (rule conjI[OF a conjI[OF b conjI[OF c conjI[OF d e]]]])
qed

theorem hitTestAngle_first_label_hit_witness:
  "find (\<lambda>p. ep_id p = ea_p1 exG2) exPoints = Some exD
   \<and> find (\<lambda>p. ep_id p = ea_center exG2) exPoints = Some exB
   \<and> find (\<lambda>p. ep_id p = ea_p2 exG2) exPoints = Some exE
   \<and> labelHit (445 / 2) (355 / 2) exPoints exLayout 35 exG2
   \<and> hitTestAngle (445 / 2) (355 / 2) [exG2] exPoints exLayout 35 = Some ''g2''
   \<and> hitTestAngle (445 / 2) (355 / 2) exAngles exPoints exLayout 35 = Some ''g1''
   \<and> labelHit (445 / 2) (355 / 2) exPoints exLayout 35 exG1
   \<and> \<not> labelHit 100 200 exPoints exLayout 35 exG1
   \<and> hitTestAngle 100 200 [exG1] exPoints exLayout 35 = None"
proof -
  have a: "find (\<lambda>p. ep_id p = ea_p1 exG2) exPoints = Some exD"
    by (simp add: ex_angle_fields ex_find)
  have b: "find (\<lambda>p. ep_id p = ea_center exG2) exPoints = Some exB"
    by (simp add: ex_angle_fields ex_find)
  have c: "find (\<lambda>p. ep_id p = ea_p2 exG2) exPoints = Some exE"
    by (simp add: ex_angle_fields ex_find)
  have d: "getDistance \<lparr>pt_x = 445 / 2, pt_y = 355 / 2\<rparr>
        (labelPoint (project exB exLayout) (project exD exLayout) (project exE exLayout)) < 35"
    by (simp add: ex_project ex_label_g2 getDistance_less_iff power2_eq_square)
  note T2 = hitTestAngle_first_label_hit[of "445 / 2" "355 / 2" exAngles exPoints exLayout 35 exG2]
  have lh2: "labelHit (445 / 2) (355 / 2) exPoints exLayout 35 exG2"
    using T2 a b c d by blast
  have s2: "hitTestAngle (445 / 2) (355 / 2) [exG2] exPoints exLayout 35 = Some ''g2''"
    using T2 lh2 by (simp add: ex_angle_fields)
  have all: "hitTestAngle (445 / 2) (355 / 2) exAngles exPoints exLayout 35 = Some ''g1''"
    by (rule ex_hitAngle_between_labels)
  have "\<forall>i. hitTestAngle (445 / 2) (355 / 2) exAngles exPoints exLayout 35 = Some i \<longrightarrow>
         (\<exists>a \<in> set exAngles. ea_id a = i \<and> labelHit (445 / 2) (355 / 2) exPoints exLayout 35 a)"
    by (rule conjunct1[OF conjunct2[OF T2]])
  then have "\<exists>a \<in> set exAngles. ea_id a = ''g1''
      \<and> labelHit (445 / 2) (355 / 2) exPoints exLayout 35 a"
    using all by simp
  then obtain g where g: "g \<in> set exAngles" "ea_id g = ''g1''"
      "labelHit (445 / 2) (355 / 2) exPoints exLayout 35 g"
    by blast
  have "g = exG1 \<or> g = exG2" using g(1) by (simp add: exAngles_def)
  then have "g = exG1" using g(2) by (auto simp add: ex_angle_fields)
  then have lh1: "labelHit (445 / 2) (355 / 2) exPoints exLayout 35 exG1"
    using g(3) by simp
  have n1: "\<not> labelHit 100 200 exPoints exLayout 35 exG1"
    by (simp add: labelHit_def ex_ang)
  note T1 = hitTestAngle_first_label_hit[of 100 200 exAngles exPoints exLayout 35 exG1]
  have s1: "hitTestAngle 100 200 [exG1] exPoints exLayout 35 = None"
    using T1 n1 by simp
  show ?thesis
    by (rule conjI[OF a conjI[OF b conjI[OF c conjI[OF lh2 conjI[OF s2 conjI[OF all
          conjI[OF lh1 conjI[OF n1 s1]]]]]]]])
qed

end
